theory Spec2Isabelle
  imports Complex_Main
begin

section \<open>EcoPort backend: data model of \<^verbatim>\<open>backend/server.py\<close>\<close>

text \<open>
  The theory embeds the request handlers of \<^verbatim>\<open>src/backend/server.py\<close>. Conventions:
  \<^item> Python \<^verbatim>\<open>float\<close> values are read as real numbers: arithmetic is exact, and
    \<^verbatim>\<open>round(x, 2)\<close> rounds the exact value half-to-even at two decimals.
  \<^item> \<^verbatim>\<open>datetime.utcnow()\<close> and \<^verbatim>\<open>uuid.uuid4()\<close> are inputs of a handler
    (\<open>now\<close>, \<open>uuid\<close>); the clock reads of one handler run return the same instant.
  \<^item> A MongoDB collection is the list of its documents in insertion order:
    \<^verbatim>\<open>find_one\<close> returns the first match, \<^verbatim>\<open>update_one\<close> changes the first match,
    \<^verbatim>\<open>insert_one\<close> appends.
  \<^item> A handler is a function from the database to its outcome and the database it
    leaves behind; an exception is the \<open>Inl\<close> branch of the outcome.
\<close>

subsection \<open>Enumerations\<close>

datatype PickupStatus = PENDING | APPROVED | ASSIGNED | COMPLETED

datatype WasteType = ORGANIC | PLASTIC | METAL | E_WASTE | MIXED

datatype Quantity = SMALL | MEDIUM | LARGE | BULK

datatype DriverStatus = AVAILABLE | BUSY | OFFLINE

datatype PaymentStatus = PAYMENT_PENDING | PAID | FAILED

datatype PaymentMethod = COD | UPI | INVOICE

text \<open>The \<^verbatim>\<open>.value\<close> of a member of a \<^verbatim>\<open>str\<close> enumeration.\<close>

fun PickupStatus_value :: "PickupStatus \<Rightarrow> string" where
  "PickupStatus_value PENDING = ''Pending''"
| "PickupStatus_value APPROVED = ''Approved''"
| "PickupStatus_value ASSIGNED = ''Assigned''"
| "PickupStatus_value COMPLETED = ''Completed''"

fun WasteType_value :: "WasteType \<Rightarrow> string" where
  "WasteType_value ORGANIC = ''Organic''"
| "WasteType_value PLASTIC = ''Plastic''"
| "WasteType_value METAL = ''Metal''"
| "WasteType_value E_WASTE = ''E-Waste''"
| "WasteType_value MIXED = ''Mixed''"

fun Quantity_value :: "Quantity \<Rightarrow> string" where
  "Quantity_value SMALL = ''Small''"
| "Quantity_value MEDIUM = ''Medium''"
| "Quantity_value LARGE = ''Large''"
| "Quantity_value BULK = ''Bulk''"

subsection \<open>Errors\<close>

text \<open>
  \<open>HTTPException code detail\<close> is the exception the handlers raise themselves.
  \<open>RequestValidationError\<close> is the rejection (HTTP 422) of a request body that violates
  the constraints of its pydantic model, before the handler runs. \<open>Unhandled name\<close> is
  any other exception escaping a handler (HTTP 500), by the name of its class.
\<close>

datatype error =
    HTTPException nat string
  | RequestValidationError
  | Unhandled string

subsection \<open>Configuration\<close>

text \<open>
  \<^verbatim>\<open>SERVICE_CENTER_LAT\<close>, \<^verbatim>\<open>SERVICE_CENTER_LNG\<close> and \<^verbatim>\<open>SERVICE_RADIUS_KM\<close> are read
  from the environment; \<open>default_config\<close> holds the defaults of the source.
\<close>

record config =
  SERVICE_CENTER_LAT :: real
  SERVICE_CENTER_LNG :: real
  SERVICE_RADIUS_KM :: real

definition default_config :: config where
  "default_config =
     \<lparr>SERVICE_CENTER_LAT = 26.7271, SERVICE_CENTER_LNG = 88.3953, SERVICE_RADIUS_KM = 20\<rparr>"

definition RATE_PER_KM :: real where
  "RATE_PER_KM = 10"

definition BASE_RATE :: real where
  "BASE_RATE = 50"

definition VOLUME_FACTORS :: "(string \<times> real) list" where
  "VOLUME_FACTORS = [(''Small'', 1.0), (''Medium'', 1.5), (''Large'', 2.0), (''Bulk'', 3.0)]"

definition WASTE_SURCHARGES :: "(string \<times> real) list" where
  "WASTE_SURCHARGES =
     [(''Organic'', 1.0), (''Plastic'', 1.0), (''Metal'', 1.0), (''E-Waste'', 1.2), (''Mixed'', 1.1)]"

subsection \<open>Geopricing\<close>

text \<open>\<^verbatim>\<open>d.get(k, default)\<close> on a dictionary given by its items.\<close>

definition dict_get :: "('k \<times> 'v) list \<Rightarrow> 'k \<Rightarrow> 'v \<Rightarrow> 'v" where
  "dict_get d k dflt = (case map_of d k of None \<Rightarrow> dflt | Some v \<Rightarrow> v)"

text \<open>\<^verbatim>\<open>round(x)\<close> of Python 3: to the nearest integer, a tie to the even one.\<close>

definition round_half_even :: "real \<Rightarrow> int" where
  "round_half_even x =
     (let f = \<lfloor>x\<rfloor>; d = x - of_int f
      in if d < 1 / 2 then f
         else if 1 / 2 < d then f + 1
         else if even f then f else f + 1)"

text \<open>\<^verbatim>\<open>round(x, 2)\<close>.\<close>

definition py_round2 :: "real \<Rightarrow> real" where
  "py_round2 x = of_int (round_half_even (x * 100)) / 100"

text \<open>\<^verbatim>\<open>math.radians\<close>.\<close>

definition radians :: "real \<Rightarrow> real" where
  "radians x = x * pi / 180"

text \<open>\<^verbatim>\<open>math.sqrt\<close> raises \<^verbatim>\<open>ValueError\<close> on a negative argument.\<close>

definition math_sqrt :: "real \<Rightarrow> error + real" where
  "math_sqrt x = (if x < 0 then Inl (Unhandled ''ValueError'') else Inr (sqrt x))"

text \<open>\<^verbatim>\<open>math.atan2(y, x)\<close>: the angle of the point \<open>(x, y)\<close>, in \<open>(-pi, pi]\<close>.\<close>

definition atan2 :: "real \<Rightarrow> real \<Rightarrow> real" where
  "atan2 y x =
     (if 0 < x then arctan (y / x)
      else if x < 0 then (if 0 \<le> y then arctan (y / x) + pi else arctan (y / x) - pi)
      else if 0 < y then pi / 2
      else if y < 0 then - (pi / 2)
      else 0)"

definition haversine_a :: "real \<Rightarrow> real \<Rightarrow> real \<Rightarrow> real \<Rightarrow> real" where
  "haversine_a lat1 lon1 lat2 lon2 =
     (let lat1_rad = radians lat1;
          lat2_rad = radians lat2;
          delta_lat = radians (lat2 - lat1);
          delta_lon = radians (lon2 - lon1)
      in (sin (delta_lat / 2))\<^sup>2 + cos lat1_rad * cos lat2_rad * (sin (delta_lon / 2))\<^sup>2)"

definition haversine_distance :: "real \<Rightarrow> real \<Rightarrow> real \<Rightarrow> real \<Rightarrow> error + real" where
  "haversine_distance lat1 lon1 lat2 lon2 =
     (let R = 6371;
          a = haversine_a lat1 lon1 lat2 lon2
      in case math_sqrt a of
           Inl e \<Rightarrow> Inl e
         | Inr sa \<Rightarrow>
             (case math_sqrt (1 - a) of
                Inl e \<Rightarrow> Inl e
              | Inr sb \<Rightarrow> (let c = 2 * atan2 sa sb in Inr (R * c))))"

definition calculate_cost :: "real \<Rightarrow> string \<Rightarrow> string \<Rightarrow> real" where
  "calculate_cost distance_km quantity waste_type =
     (let volume_factor = dict_get VOLUME_FACTORS quantity 1.0;
          surcharge = dict_get WASTE_SURCHARGES waste_type 1.0;
          total = ((distance_km * RATE_PER_KM) + (volume_factor * BASE_RATE)) * surcharge
      in py_round2 total)"

text \<open>
  The cost formula in the words of the specification: the factor of a quantity class and
  the surcharge of a waste category by cases, every other value contributing 1.
\<close>

definition spec_volume_factor :: "string \<Rightarrow> real" where
  "spec_volume_factor q =
     (if q = ''Small'' then 1.0 else if q = ''Medium'' then 1.5
      else if q = ''Large'' then 2.0 else if q = ''Bulk'' then 3.0 else 1.0)"

definition spec_waste_surcharge :: "string \<Rightarrow> real" where
  "spec_waste_surcharge w =
     (if w = ''Organic'' then 1.0 else if w = ''Plastic'' then 1.0
      else if w = ''Metal'' then 1.0 else if w = ''Mixed'' then 1.1
      else if w = ''E-Waste'' then 1.2 else 1.0)"

definition spec_cost :: "real \<Rightarrow> string \<Rightarrow> string \<Rightarrow> real" where
  "spec_cost distance_km q w =
     py_round2 (((distance_km * 10) + (spec_volume_factor q * 50)) * spec_waste_surcharge w)"

section \<open>Documents and the database\<close>

type_synonym datetime = nat

record Location =
  latitude :: real
  longitude :: real
  address :: string

record StatusHistoryEntry =
  sh_status :: string
  sh_at :: datetime
  sh_by :: string

record PriceHistoryEntry =
  ph_actual_cost :: real
  ph_at :: datetime
  ph_by :: string

text \<open>
  A pickup request, as the document stored in \<^verbatim>\<open>db.pickup_requests\<close>. Every field has
  the type the class \<^verbatim>\<open>PickupRequest\<close> declares, except \<open>pr_payment_status\<close>: the class
  declares a \<^verbatim>\<open>PaymentStatus\<close>, while the stored field can be made null by
  \<^verbatim>\<open>$set\<close> (the update model allows null there), so the document holds an option.
\<close>

record PickupRequest =
  pr_id :: string
  pr_location :: Location
  pr_waste_image :: string
  pr_waste_type :: WasteType
  pr_quantity :: Quantity
  pr_estimated_cost :: real
  pr_actual_cost :: "real option"
  pr_distance_km :: real
  pr_status :: PickupStatus
  pr_user_contact :: "string option"
  pr_notes :: "string option"
  pr_driver_id :: "string option"
  pr_payment_method :: "PaymentMethod option"
  pr_payment_status :: "PaymentStatus option"
  pr_status_history :: "StatusHistoryEntry list"
  pr_price_history :: "PriceHistoryEntry list"
  pr_created_at :: datetime
  pr_updated_at :: datetime

record PickupRequestCreate =
  c_location :: Location
  c_waste_image :: string
  c_waste_type :: WasteType
  c_quantity :: Quantity
  c_user_contact :: "string option"
  c_notes :: "string option"
  c_payment_method :: "PaymentMethod option"

text \<open>
  \<^verbatim>\<open>PickupRequestUpdate\<close>, as \<^verbatim>\<open>update.dict(exclude_unset=True)\<close> reads it: a field is
  \<open>None\<close> when the request body did not set it, \<open>Some None\<close> when the body set it to
  null, and \<open>Some (Some v)\<close> when the body gave the value \<open>v\<close>.
\<close>

record PickupRequestUpdate =
  u_status :: "PickupStatus option option"
  u_actual_cost :: "real option option"
  u_notes :: "string option option"
  u_payment_status :: "PaymentStatus option option"

text \<open>
  The dictionary \<^verbatim>\<open>update_data\<close> when it reaches \<^verbatim>\<open>$set\<close>: a field is \<open>None\<close> when
  the key is absent. The key \<^verbatim>\<open>status\<close>, when present there, holds a status (a null
  status does not get past the transition check).
\<close>

record update_data =
  ud_status :: "PickupStatus option"
  ud_actual_cost :: "real option option"
  ud_notes :: "string option option"
  ud_payment_status :: "PaymentStatus option option"
  ud_status_history :: "StatusHistoryEntry list option"
  ud_price_history :: "PriceHistoryEntry list option"
  ud_updated_at :: "datetime option"

record Driver =
  d_id :: string
  d_name :: string
  d_phone :: string
  d_vehicle_type :: string
  d_vehicle_number :: string
  d_status :: DriverStatus
  d_current_location :: "Location option"
  d_created_at :: datetime

record DriverCreate =
  dc_name :: string
  dc_phone :: string
  dc_vehicle_type :: string
  dc_vehicle_number :: string

record Rating =
  r_id :: string
  r_pickup_id :: string
  r_rating :: int
  r_feedback :: "string option"
  r_created_at :: datetime

record RatingCreate =
  rc_pickup_id :: string
  rc_rating :: int
  rc_feedback :: "string option"

record AdminUser =
  username :: string
  role :: string

record database =
  pickup_requests :: "PickupRequest list"
  drivers :: "Driver list"
  ratings :: "Rating list"

definition empty_database :: database where
  "empty_database = \<lparr>pickup_requests = [], drivers = [], ratings = []\<rparr>"

subsection \<open>Collection operations\<close>

primrec find_one :: "('a \<Rightarrow> bool) \<Rightarrow> 'a list \<Rightarrow> 'a option" where
  "find_one P [] = None"
| "find_one P (x # xs) = (if P x then Some x else find_one P xs)"

primrec update_one :: "('a \<Rightarrow> bool) \<Rightarrow> ('a \<Rightarrow> 'a) \<Rightarrow> 'a list \<Rightarrow> 'a list" where
  "update_one P f [] = []"
| "update_one P f (x # xs) = (if P x then f x # xs else x # update_one P f xs)"

definition insert_one :: "'a \<Rightarrow> 'a list \<Rightarrow> 'a list" where
  "insert_one x xs = xs @ [x]"

subsection \<open>Model construction\<close>

text \<open>
  \<^verbatim>\<open>PickupRequest(**doc)\<close>: pydantic raises \<^verbatim>\<open>ValidationError\<close> when the document
  holds null in \<^verbatim>\<open>payment_status\<close>, a field declared \<^verbatim>\<open>PaymentStatus\<close>.
\<close>

definition PickupRequest_init :: "PickupRequest \<Rightarrow> error + PickupRequest" where
  "PickupRequest_init doc =
     (if pr_payment_status doc = None then Inl (Unhandled ''ValidationError'') else Inr doc)"

text \<open>\<^verbatim>\<open>PickupRequest(**None)\<close>, should \<^verbatim>\<open>find_one\<close> return nothing, is a TypeError.\<close>

definition PickupRequest_of_found :: "PickupRequest option \<Rightarrow> error + PickupRequest" where
  "PickupRequest_of_found found =
     (case found of None \<Rightarrow> Inl (Unhandled ''TypeError'') | Some doc \<Rightarrow> PickupRequest_init doc)"

text \<open>The constraint \<^verbatim>\<open>Field(ge=1, le=5)\<close> of \<^verbatim>\<open>RatingCreate\<close>, checked on the request body.\<close>

definition RatingCreate_validate :: "RatingCreate \<Rightarrow> error + RatingCreate" where
  "RatingCreate_validate body =
     (if 1 \<le> rc_rating body \<and> rc_rating body \<le> 5 then Inr body else Inl RequestValidationError)"

text \<open>\<^verbatim>\<open>Rating(**rating.dict())\<close>: the same constraint, checked inside the handler.\<close>

definition Rating_init :: "RatingCreate \<Rightarrow> string \<Rightarrow> datetime \<Rightarrow> error + Rating" where
  "Rating_init rating uuid now =
     (if 1 \<le> rc_rating rating \<and> rc_rating rating \<le> 5
      then Inr \<lparr>r_id = uuid, r_pickup_id = rc_pickup_id rating, r_rating = rc_rating rating,
                r_feedback = rc_feedback rating, r_created_at = now\<rparr>
      else Inl (Unhandled ''ValidationError''))"

text \<open>The validator \<^verbatim>\<open>validate_image_size\<close> of \<^verbatim>\<open>PickupRequestCreate\<close>.\<close>

definition validate_image_size :: "PickupRequestCreate \<Rightarrow> error + PickupRequestCreate" where
  "validate_image_size body =
     (let max_size = 2.67 * 1024 * 1024
      in if real (length (c_waste_image body)) > max_size then Inl RequestValidationError
         else Inr body)"

subsection \<open>Authentication\<close>

text \<open>
  \<^verbatim>\<open>get_current_admin\<close>. The argument is the outcome of \<^verbatim>\<open>verify_jwt_token\<close> on the
  presented token: the \<^verbatim>\<open>sub\<close> claim of a token it accepts, \<open>None\<close> otherwise
  (decoding the token is outside the embedding, and a call that presents no token at all
  is not told apart from one whose token is refused).
\<close>

definition get_current_admin :: "string option \<Rightarrow> error + AdminUser" where
  "get_current_admin payload =
     (case payload of
        None \<Rightarrow> Inl (HTTPException 401 ''Invalid or expired token'')
      | Some sub \<Rightarrow> Inr \<lparr>username = sub, role = ''admin''\<rparr>)"

section \<open>Request handlers\<close>

subsection \<open>Pickup requests\<close>

definition create_pickup_request ::
  "config \<Rightarrow> PickupRequestCreate \<Rightarrow> string \<Rightarrow> datetime \<Rightarrow> database
    \<Rightarrow> (error + PickupRequest) \<times> database" where
  "create_pickup_request cfg request uuid now db =
     (case haversine_distance (SERVICE_CENTER_LAT cfg) (SERVICE_CENTER_LNG cfg)
             (latitude (c_location request)) (longitude (c_location request)) of
        Inl e \<Rightarrow> (Inl e, db)
      | Inr distance_km \<Rightarrow>
          if distance_km > SERVICE_RADIUS_KM cfg
          then (Inl (HTTPException 400
                  ''Currently we serve Siliguri city limits only. Your location is outside our service area.''),
                db)
          else
            (let estimated_cost =
                   calculate_cost distance_km (Quantity_value (c_quantity request))
                     (WasteType_value (c_waste_type request));
                 pickup =
                   \<lparr>pr_id = uuid,
                    pr_location = c_location request,
                    pr_waste_image = c_waste_image request,
                    pr_waste_type = c_waste_type request,
                    pr_quantity = c_quantity request,
                    pr_estimated_cost = estimated_cost,
                    pr_actual_cost = None,
                    pr_distance_km = py_round2 distance_km,
                    pr_status = PENDING,
                    pr_user_contact = c_user_contact request,
                    pr_notes = c_notes request,
                    pr_driver_id = None,
                    pr_payment_method = c_payment_method request,
                    pr_payment_status = Some PAYMENT_PENDING,
                    pr_status_history =
                      [\<lparr>sh_status = PickupStatus_value PENDING, sh_at = now, sh_by = ''user''\<rparr>],
                    pr_price_history = [],
                    pr_created_at = now,
                    pr_updated_at = now\<rparr>
             in (Inr pickup, db\<lparr>pickup_requests := insert_one pickup (pickup_requests db)\<rparr>)))"

definition valid_transitions :: "(PickupStatus \<times> PickupStatus list) list" where
  "valid_transitions =
     [(PENDING, [APPROVED]), (APPROVED, [ASSIGNED]), (ASSIGNED, [COMPLETED]), (COMPLETED, [])]"

text \<open>
  The block \<^verbatim>\<open>if 'status' in update_data\<close> of \<^verbatim>\<open>update_pickup_request\<close>. It starts from
  the fields the body set and either raises or adds the extended status history. A null
  status is not in any list of \<open>valid_transitions\<close>; formatting the detail of the
  exception then reads \<^verbatim>\<open>new_status.value\<close> of \<^verbatim>\<open>None\<close>, an AttributeError.
\<close>

definition validate_status_transition ::
  "PickupRequest \<Rightarrow> PickupRequestUpdate \<Rightarrow> AdminUser \<Rightarrow> datetime \<Rightarrow> error + update_data" where
  "validate_status_transition pickup update admin now =
     (let update_data =
            \<lparr>ud_status = None, ud_actual_cost = u_actual_cost update, ud_notes = u_notes update,
             ud_payment_status = u_payment_status update, ud_status_history = None,
             ud_price_history = None, ud_updated_at = None\<rparr>
      in case u_status update of
           None \<Rightarrow> Inr update_data
         | Some None \<Rightarrow> Inl (Unhandled ''AttributeError'')
         | Some (Some new_status) \<Rightarrow>
             (let current_status = pr_status pickup
              in if new_status \<notin> set (dict_get valid_transitions current_status [])
                 then Inl (HTTPException 400
                        (''Invalid status transition from '' @ PickupStatus_value current_status
                           @ '' to '' @ PickupStatus_value new_status))
                 else Inr (update_data
                        \<lparr>ud_status := Some new_status,
                         ud_status_history := Some (pr_status_history pickup @
                           [\<lparr>sh_status = PickupStatus_value new_status, sh_at = now,
                             sh_by = username admin\<rparr>])\<rparr>)))"

text \<open>The block \<^verbatim>\<open>if 'actual_cost' in update_data and ... is not None\<close>.\<close>

definition track_price_changes ::
  "PickupRequest \<Rightarrow> update_data \<Rightarrow> AdminUser \<Rightarrow> datetime \<Rightarrow> update_data" where
  "track_price_changes pickup update_data admin now =
     (case ud_actual_cost update_data of
        Some (Some actual_cost) \<Rightarrow>
          update_data\<lparr>ud_price_history := Some (pr_price_history pickup @
            [\<lparr>ph_actual_cost = actual_cost, ph_at = now, ph_by = username admin\<rparr>])\<rparr>
      | _ \<Rightarrow> update_data)"

text \<open>\<^verbatim>\<open>{'$set': update_data}\<close>: every key present replaces the field of the document.\<close>

definition mongo_set :: "update_data \<Rightarrow> PickupRequest \<Rightarrow> PickupRequest" where
  "mongo_set ud doc =
     (let d1 = (case ud_status ud of None \<Rightarrow> doc | Some v \<Rightarrow> doc\<lparr>pr_status := v\<rparr>);
          d2 = (case ud_actual_cost ud of None \<Rightarrow> d1 | Some v \<Rightarrow> d1\<lparr>pr_actual_cost := v\<rparr>);
          d3 = (case ud_notes ud of None \<Rightarrow> d2 | Some v \<Rightarrow> d2\<lparr>pr_notes := v\<rparr>);
          d4 = (case ud_payment_status ud of None \<Rightarrow> d3 | Some v \<Rightarrow> d3\<lparr>pr_payment_status := v\<rparr>);
          d5 = (case ud_status_history ud of None \<Rightarrow> d4 | Some v \<Rightarrow> d4\<lparr>pr_status_history := v\<rparr>);
          d6 = (case ud_price_history ud of None \<Rightarrow> d5 | Some v \<Rightarrow> d5\<lparr>pr_price_history := v\<rparr>)
      in (case ud_updated_at ud of None \<Rightarrow> d6 | Some v \<Rightarrow> d6\<lparr>pr_updated_at := v\<rparr>))"

definition update_pickup_request ::
  "string \<Rightarrow> PickupRequestUpdate \<Rightarrow> AdminUser \<Rightarrow> datetime \<Rightarrow> database
    \<Rightarrow> (error + PickupRequest) \<times> database" where
  "update_pickup_request request_id update admin now db =
     (case find_one (\<lambda>doc. pr_id doc = request_id) (pickup_requests db) of
        None \<Rightarrow> (Inl (HTTPException 404 ''Pickup request not found''), db)
      | Some existing \<Rightarrow>
          (case PickupRequest_init existing of
             Inl e \<Rightarrow> (Inl e, db)
           | Inr pickup \<Rightarrow>
               (case validate_status_transition pickup update admin now of
                  Inl e \<Rightarrow> (Inl e, db)
                | Inr update_data0 \<Rightarrow>
                    (let update_data1 = track_price_changes pickup update_data0 admin now;
                         update_data = update_data1\<lparr>ud_updated_at := Some now\<rparr>;
                         db' = db\<lparr>pickup_requests :=
                                 update_one (\<lambda>doc. pr_id doc = request_id) (mongo_set update_data)
                                   (pickup_requests db)\<rparr>;
                         updated = find_one (\<lambda>doc. pr_id doc = request_id) (pickup_requests db')
                     in (PickupRequest_of_found updated, db')))))"

definition assign_driver ::
  "string \<Rightarrow> string \<Rightarrow> AdminUser \<Rightarrow> datetime \<Rightarrow> database
    \<Rightarrow> (error + PickupRequest) \<times> database" where
  "assign_driver request_id driver_id admin now db =
     (case find_one (\<lambda>doc. pr_id doc = request_id) (pickup_requests db) of
        None \<Rightarrow> (Inl (HTTPException 404 ''Pickup request not found''), db)
      | Some pickup \<Rightarrow>
          (case PickupRequest_init pickup of
             Inl e \<Rightarrow> (Inl e, db)
           | Inr pickup_obj \<Rightarrow>
               if pr_status pickup_obj \<noteq> APPROVED
               then (Inl (HTTPException 400 ''Can only assign driver to approved requests''), db)
               else
                 (case find_one (\<lambda>doc. d_id doc = driver_id) (drivers db) of
                    None \<Rightarrow> (Inl (HTTPException 404 ''Driver not found''), db)
                  | Some driver_obj \<Rightarrow>
                      if d_status driver_obj \<noteq> AVAILABLE
                      then (Inl (HTTPException 400 ''Driver is not available''), db)
                      else
                        (let new_status_history = pr_status_history pickup_obj @
                               [\<lparr>sh_status = PickupStatus_value ASSIGNED, sh_at = now,
                                 sh_by = username admin\<rparr>];
                             db1 = db\<lparr>pickup_requests :=
                                     update_one (\<lambda>doc. pr_id doc = request_id)
                                       (\<lambda>doc. doc\<lparr>pr_driver_id := Some driver_id,
                                                  pr_status := ASSIGNED,
                                                  pr_status_history := new_status_history,
                                                  pr_updated_at := now\<rparr>)
                                       (pickup_requests db)\<rparr>;
                             db2 = db1\<lparr>drivers :=
                                     update_one (\<lambda>doc. d_id doc = driver_id)
                                       (\<lambda>doc. doc\<lparr>d_status := BUSY\<rparr>) (drivers db1)\<rparr>;
                             updated =
                               find_one (\<lambda>doc. pr_id doc = request_id) (pickup_requests db2)
                         in (PickupRequest_of_found updated, db2)))))"

subsection \<open>Drivers\<close>

definition create_driver ::
  "DriverCreate \<Rightarrow> string \<Rightarrow> datetime \<Rightarrow> database \<Rightarrow> (error + Driver) \<times> database" where
  "create_driver driver uuid now db =
     (let new_driver =
            \<lparr>d_id = uuid, d_name = dc_name driver, d_phone = dc_phone driver,
             d_vehicle_type = dc_vehicle_type driver, d_vehicle_number = dc_vehicle_number driver,
             d_status = AVAILABLE, d_current_location = None, d_created_at = now\<rparr>
      in (Inr new_driver, db\<lparr>drivers := insert_one new_driver (drivers db)\<rparr>))"

definition update_driver_status ::
  "string \<Rightarrow> DriverStatus \<Rightarrow> database \<Rightarrow> (error + Driver) \<times> database" where
  "update_driver_status driver_id status db =
     (case find_one (\<lambda>doc. d_id doc = driver_id) (drivers db) of
        None \<Rightarrow> (Inl (HTTPException 404 ''Driver not found''), db)
      | Some driver \<Rightarrow>
          (let db' = db\<lparr>drivers :=
                       update_one (\<lambda>doc. d_id doc = driver_id) (\<lambda>doc. doc\<lparr>d_status := status\<rparr>)
                         (drivers db)\<rparr>
           in case find_one (\<lambda>doc. d_id doc = driver_id) (drivers db') of
                None \<Rightarrow> (Inl (Unhandled ''TypeError''), db')
              | Some updated \<Rightarrow> (Inr updated, db')))"

subsection \<open>Ratings\<close>

definition create_rating ::
  "RatingCreate \<Rightarrow> string \<Rightarrow> datetime \<Rightarrow> database \<Rightarrow> (error + Rating) \<times> database" where
  "create_rating rating uuid now db =
     (case find_one (\<lambda>doc. pr_id doc = rc_pickup_id rating) (pickup_requests db) of
        None \<Rightarrow> (Inl (HTTPException 404 ''Pickup request not found''), db)
      | Some pickup \<Rightarrow>
          if PickupStatus_value (pr_status pickup) \<noteq> PickupStatus_value COMPLETED
          then (Inl (HTTPException 400 ''Can only rate completed pickups''), db)
          else
            (case find_one (\<lambda>doc. r_pickup_id doc = rc_pickup_id rating) (ratings db) of
               Some existing \<Rightarrow>
                 (Inl (HTTPException 400 ''This pickup has already been rated''), db)
             | None \<Rightarrow>
                 (case Rating_init rating uuid now of
                    Inl e \<Rightarrow> (Inl e, db)
                  | Inr new_rating \<Rightarrow>
                      (Inr new_rating, db\<lparr>ratings := insert_one new_rating (ratings db)\<rparr>))))"

subsection \<open>The API: body validation, authentication, handler\<close>

datatype request =
    POST_pickup_requests PickupRequestCreate
  | PUT_pickup_request string PickupRequestUpdate
  | POST_assign_driver string string
  | POST_drivers DriverCreate
  | PUT_driver_status string DriverStatus
  | POST_ratings RatingCreate

datatype response =
    PickupRequest_response PickupRequest
  | Driver_response Driver
  | Rating_response Rating

text \<open>
  What a call brings besides its request: the outcome of the token check (see
  \<open>get_current_admin\<close>), the identifier \<^verbatim>\<open>uuid4()\<close> would draw and the clock.
\<close>

record call =
  call_token :: "string option"
  call_uuid :: string
  call_now :: datetime
  call_request :: request

definition respond :: "('a \<Rightarrow> response) \<Rightarrow> (error + 'a) \<times> database \<Rightarrow> (error + response) \<times> database" where
  "respond wrap out = (case fst out of Inl e \<Rightarrow> (Inl e, snd out) | Inr v \<Rightarrow> (Inr (wrap v), snd out))"

text \<open>
  The route of each request. The routes declared with
  \<^verbatim>\<open>Depends(get_current_admin)\<close> run the handler only for a verified admin; the routes for
  creating a pickup request and a rating declare no such dependency.
\<close>

definition api :: "config \<Rightarrow> call \<Rightarrow> database \<Rightarrow> (error + response) \<times> database" where
  "api cfg c db =
     (case call_request c of
        POST_pickup_requests body \<Rightarrow>
          (case validate_image_size body of
             Inl e \<Rightarrow> (Inl e, db)
           | Inr request \<Rightarrow>
               respond PickupRequest_response
                 (create_pickup_request cfg request (call_uuid c) (call_now c) db))
      | PUT_pickup_request request_id update \<Rightarrow>
          (case get_current_admin (call_token c) of
             Inl e \<Rightarrow> (Inl e, db)
           | Inr admin \<Rightarrow>
               respond PickupRequest_response
                 (update_pickup_request request_id update admin (call_now c) db))
      | POST_assign_driver request_id driver_id \<Rightarrow>
          (case get_current_admin (call_token c) of
             Inl e \<Rightarrow> (Inl e, db)
           | Inr admin \<Rightarrow>
               respond PickupRequest_response
                 (assign_driver request_id driver_id admin (call_now c) db))
      | POST_drivers driver \<Rightarrow>
          (case get_current_admin (call_token c) of
             Inl e \<Rightarrow> (Inl e, db)
           | Inr admin \<Rightarrow>
               respond Driver_response (create_driver driver (call_uuid c) (call_now c) db))
      | PUT_driver_status driver_id status \<Rightarrow>
          (case get_current_admin (call_token c) of
             Inl e \<Rightarrow> (Inl e, db)
           | Inr admin \<Rightarrow> respond Driver_response (update_driver_status driver_id status db))
      | POST_ratings body \<Rightarrow>
          (case RatingCreate_validate body of
             Inl e \<Rightarrow> (Inl e, db)
           | Inr rating \<Rightarrow>
               respond Rating_response (create_rating rating (call_uuid c) (call_now c) db)))"

text \<open>The database after a sequence of calls, served one after the other.\<close>

primrec run :: "config \<Rightarrow> call list \<Rightarrow> database \<Rightarrow> database" where
  "run cfg [] db = db"
| "run cfg (c # cs) db = run cfg cs (snd (api cfg c db))"

section \<open>The specification's vocabulary\<close>

text \<open>
  The error kinds of the specification, as the exceptions the source raises for them.
  The kind \<^verbatim>\<open>ValidationError\<close> is \<open>RequestValidationError\<close>.
\<close>

definition NotFound :: "string \<Rightarrow> error" where
  "NotFound entity = HTTPException 404 (entity @ '' not found'')"

definition OutOfServiceArea :: error where
  "OutOfServiceArea = HTTPException 400
     ''Currently we serve Siliguri city limits only. Your location is outside our service area.''"

definition InvalidTransition :: "PickupStatus \<Rightarrow> PickupStatus \<Rightarrow> error" where
  "InvalidTransition current requested = HTTPException 400
     (''Invalid status transition from '' @ PickupStatus_value current @ '' to ''
        @ PickupStatus_value requested)"

definition InvalidState_not_approved :: error where
  "InvalidState_not_approved = HTTPException 400 ''Can only assign driver to approved requests''"

definition InvalidState_not_completed :: error where
  "InvalidState_not_completed = HTTPException 400 ''Can only rate completed pickups''"

definition DriverUnavailable :: error where
  "DriverUnavailable = HTTPException 400 ''Driver is not available''"

definition Conflict :: error where
  "Conflict = HTTPException 400 ''This pickup has already been rated''"

text \<open>
  The haversine great-circle distance in km on a sphere of radius 6371 km, by its
  textbook formula \<open>2 R arcsin (sqrt h)\<close>, from latitudes and longitudes in degrees.
\<close>

definition spec_haversine_km :: "real \<Rightarrow> real \<Rightarrow> real \<Rightarrow> real \<Rightarrow> real" where
  "spec_haversine_km lat1 lon1 lat2 lon2 =
     (let phi1 = lat1 * pi / 180;
          phi2 = lat2 * pi / 180;
          lam1 = lon1 * pi / 180;
          lam2 = lon2 * pi / 180;
          h = (sin ((phi2 - phi1) / 2))\<^sup>2 + cos phi1 * cos phi2 * (sin ((lam2 - lam1) / 2))\<^sup>2
      in 2 * 6371 * arcsin (sqrt h))"

text \<open>The distance of a location from the configured hub.\<close>

definition hub_distance :: "config \<Rightarrow> Location \<Rightarrow> real" where
  "hub_distance cfg loc =
     spec_haversine_km (SERVICE_CENTER_LAT cfg) (SERVICE_CENTER_LNG cfg) (latitude loc) (longitude loc)"

text \<open>The three edges of the lifecycle \<open>Pending \<rightarrow> Approved \<rightarrow> Assigned \<rightarrow> Completed\<close>.\<close>

definition spec_edge :: "PickupStatus \<Rightarrow> PickupStatus \<Rightarrow> bool" where
  "spec_edge current requested =
     ((current, requested) \<in> {(PENDING, APPROVED), (APPROVED, ASSIGNED), (ASSIGNED, COMPLETED)})"

section \<open>Auxiliary notions\<close>

text \<open>
  The dictionary \<^verbatim>\<open>update_data\<close> as \<open>update_pickup_request\<close> hands it to \<^verbatim>\<open>$set\<close>, from
  what the status block returned.
\<close>

definition update_data_of ::
  "PickupRequest \<Rightarrow> update_data \<Rightarrow> AdminUser \<Rightarrow> datetime \<Rightarrow> update_data" where
  "update_data_of pickup ud0 admin now =
     (track_price_changes pickup ud0 admin now)\<lparr>ud_updated_at := Some now\<rparr>"

text \<open>
  The status history of a document is not empty and its last entry carries the
  document's status.
\<close>

definition history_ok :: "PickupRequest \<Rightarrow> bool" where
  "history_ok p =
     (pr_status_history p \<noteq> []
      \<and> sh_status (last (pr_status_history p)) = PickupStatus_value (pr_status p))"

text \<open>
  How one call may change a stored request: either status and status history stay as
  they are, or the status moves along an edge of the lifecycle and the history gains
  exactly one entry, at its end, carrying the new status.
\<close>

definition history_step :: "PickupRequest \<Rightarrow> PickupRequest \<Rightarrow> bool" where
  "history_step p p' =
     (if pr_status p' = pr_status p then pr_status_history p' = pr_status_history p
      else spec_edge (pr_status p) (pr_status p')
        \<and> pr_status_history p' = pr_status_history p @ [last (pr_status_history p')]
        \<and> sh_status (last (pr_status_history p')) = PickupStatus_value (pr_status p'))"

text \<open>What \<open>assign_driver\<close> writes into the document of the request it assigns.\<close>

definition assigned_doc ::
  "string \<Rightarrow> AdminUser \<Rightarrow> datetime \<Rightarrow> PickupRequest \<Rightarrow> PickupRequest \<Rightarrow> PickupRequest" where
  "assigned_doc driver_id admin now pickup_obj doc =
     doc\<lparr>pr_driver_id := Some driver_id, pr_status := ASSIGNED,
         pr_status_history := pr_status_history pickup_obj @
           [\<lparr>sh_status = PickupStatus_value ASSIGNED, sh_at = now, sh_by = username admin\<rparr>],
         pr_updated_at := now\<rparr>"

text \<open>A stored request keeps its id through a call, and changes as \<open>history_step\<close> says.\<close>

definition request_step :: "PickupRequest \<Rightarrow> PickupRequest \<Rightarrow> bool" where
  "request_step p p' = (pr_id p' = pr_id p \<and> history_step p p')"

section \<open>Example data\<close>

text \<open>A request at the hub's own coordinate, and one a degree of latitude north of it.\<close>

definition example_create_hub :: PickupRequestCreate where
  "example_create_hub =
     \<lparr>c_location = \<lparr>latitude = 26.7271, longitude = 88.3953, address = ''Hub''\<rparr>,
      c_waste_image = ''aGVsbG8='', c_waste_type = PLASTIC, c_quantity = MEDIUM,
      c_user_contact = None, c_notes = None, c_payment_method = Some COD\<rparr>"

definition example_create_far :: PickupRequestCreate where
  "example_create_far =
     \<lparr>c_location = \<lparr>latitude = 27.7271, longitude = 88.3953, address = ''North''\<rparr>,
      c_waste_image = ''aGVsbG8='', c_waste_type = METAL, c_quantity = SMALL,
      c_user_contact = None, c_notes = None, c_payment_method = None\<rparr>"

text \<open>A run of the whole workflow, call by call, and the documents it leaves.\<close>

definition example_admin :: AdminUser where
  "example_admin = \<lparr>username = ''admin'', role = ''admin''\<rparr>"

definition example_pickup :: PickupRequest where
  "example_pickup =
     \<lparr>pr_id = ''id-1'',
      pr_location = \<lparr>latitude = 26.7271, longitude = 88.3953, address = ''Hub''\<rparr>,
      pr_waste_image = ''aGVsbG8='', pr_waste_type = PLASTIC, pr_quantity = MEDIUM,
      pr_estimated_cost = 75, pr_actual_cost = None, pr_distance_km = 0, pr_status = PENDING,
      pr_user_contact = None, pr_notes = None, pr_driver_id = None,
      pr_payment_method = Some COD, pr_payment_status = Some PAYMENT_PENDING,
      pr_status_history = [\<lparr>sh_status = ''Pending'', sh_at = 7, sh_by = ''user''\<rparr>],
      pr_price_history = [], pr_created_at = 7, pr_updated_at = 7\<rparr>"

definition example_driver :: Driver where
  "example_driver =
     \<lparr>d_id = ''drv-1'', d_name = ''Asha'', d_phone = ''555-0100'', d_vehicle_type = ''Truck'',
      d_vehicle_number = ''WB-01'', d_status = AVAILABLE, d_current_location = None,
      d_created_at = 9\<rparr>"

definition example_pickup_approved :: PickupRequest where
  "example_pickup_approved =
     example_pickup
       \<lparr>pr_actual_cost := Some 120, pr_status := APPROVED,
        pr_status_history :=
          [\<lparr>sh_status = ''Pending'', sh_at = 7, sh_by = ''user''\<rparr>,
           \<lparr>sh_status = ''Approved'', sh_at = 8, sh_by = ''admin''\<rparr>],
        pr_price_history := [\<lparr>ph_actual_cost = 120, ph_at = 8, ph_by = ''admin''\<rparr>],
        pr_updated_at := 8\<rparr>"

definition example_pickup_assigned :: PickupRequest where
  "example_pickup_assigned =
     example_pickup_approved
       \<lparr>pr_status := ASSIGNED, pr_driver_id := Some ''drv-1'',
        pr_status_history :=
          [\<lparr>sh_status = ''Pending'', sh_at = 7, sh_by = ''user''\<rparr>,
           \<lparr>sh_status = ''Approved'', sh_at = 8, sh_by = ''admin''\<rparr>,
           \<lparr>sh_status = ''Assigned'', sh_at = 10, sh_by = ''admin''\<rparr>],
        pr_updated_at := 10\<rparr>"

definition example_pickup_completed :: PickupRequest where
  "example_pickup_completed =
     example_pickup_assigned
       \<lparr>pr_status := COMPLETED,
        pr_status_history :=
          [\<lparr>sh_status = ''Pending'', sh_at = 7, sh_by = ''user''\<rparr>,
           \<lparr>sh_status = ''Approved'', sh_at = 8, sh_by = ''admin''\<rparr>,
           \<lparr>sh_status = ''Assigned'', sh_at = 10, sh_by = ''admin''\<rparr>,
           \<lparr>sh_status = ''Completed'', sh_at = 11, sh_by = ''admin''\<rparr>],
        pr_updated_at := 11\<rparr>"

definition example_rating :: Rating where
  "example_rating =
     \<lparr>r_id = ''rat-1'', r_pickup_id = ''id-1'', r_rating = 5, r_feedback = Some ''Great'',
      r_created_at = 12\<rparr>"

definition example_db_pending :: database where
  "example_db_pending = \<lparr>pickup_requests = [example_pickup], drivers = [], ratings = []\<rparr>"

definition example_db_approved :: database where
  "example_db_approved =
     \<lparr>pickup_requests = [example_pickup_approved], drivers = [example_driver], ratings = []\<rparr>"

definition example_db_assigned :: database where
  "example_db_assigned =
     \<lparr>pickup_requests = [example_pickup_assigned],
      drivers = [example_driver\<lparr>d_status := BUSY\<rparr>], ratings = []\<rparr>"

definition example_db_completed :: database where
  "example_db_completed =
     \<lparr>pickup_requests = [example_pickup_completed],
      drivers = [example_driver\<lparr>d_status := BUSY\<rparr>], ratings = []\<rparr>"

definition example_db_rated :: database where
  "example_db_rated =
     \<lparr>pickup_requests = [example_pickup_completed],
      drivers = [example_driver\<lparr>d_status := BUSY\<rparr>], ratings = [example_rating]\<rparr>"

definition example_update_status :: "PickupStatus \<Rightarrow> PickupRequestUpdate" where
  "example_update_status s =
     \<lparr>u_status = Some (Some s), u_actual_cost = None, u_notes = None, u_payment_status = None\<rparr>"

definition example_update_approve :: PickupRequestUpdate where
  "example_update_approve =
     \<lparr>u_status = Some (Some APPROVED), u_actual_cost = Some (Some 120), u_notes = None,
      u_payment_status = None\<rparr>"

definition example_calls :: "call list" where
  "example_calls =
     [\<lparr>call_token = None, call_uuid = ''id-1'', call_now = 7,
       call_request = POST_pickup_requests example_create_hub\<rparr>,
      \<lparr>call_token = Some ''admin'', call_uuid = ''u-2'', call_now = 8,
       call_request = PUT_pickup_request ''id-1'' example_update_approve\<rparr>,
      \<lparr>call_token = Some ''admin'', call_uuid = ''drv-1'', call_now = 9,
       call_request = POST_drivers
         \<lparr>dc_name = ''Asha'', dc_phone = ''555-0100'', dc_vehicle_type = ''Truck'',
          dc_vehicle_number = ''WB-01''\<rparr>\<rparr>,
      \<lparr>call_token = Some ''admin'', call_uuid = ''u-4'', call_now = 10,
       call_request = POST_assign_driver ''id-1'' ''drv-1''\<rparr>,
      \<lparr>call_token = Some ''admin'', call_uuid = ''u-5'', call_now = 11,
       call_request = PUT_pickup_request ''id-1'' (example_update_status COMPLETED)\<rparr>,
      \<lparr>call_token = None, call_uuid = ''rat-1'', call_now = 12,
       call_request = POST_ratings
         \<lparr>rc_pickup_id = ''id-1'', rc_rating = 5, rc_feedback = Some ''Great''\<rparr>\<rparr>]"

definition example_update_clear_cost :: PickupRequestUpdate where
  "example_update_clear_cost =
     \<lparr>u_status = None, u_actual_cost = Some None, u_notes = None, u_payment_status = None\<rparr>"

definition example_update_null_payment :: PickupRequestUpdate where
  "example_update_null_payment =
     \<lparr>u_status = None, u_actual_cost = None, u_notes = None, u_payment_status = Some None\<rparr>"

definition example_db_driver_busy :: database where
  "example_db_driver_busy =
     \<lparr>pickup_requests = [example_pickup_approved],
      drivers = [example_driver\<lparr>d_status := BUSY\<rparr>], ratings = []\<rparr>"

definition example_rating_body :: "int \<Rightarrow> RatingCreate" where
  "example_rating_body score =
     \<lparr>rc_pickup_id = ''id-1'', rc_rating = score, rc_feedback = Some ''Great''\<rparr>"

definition example_rating_call :: "RatingCreate \<Rightarrow> call" where
  "example_rating_call body =
     \<lparr>call_token = None, call_uuid = ''rat-1'', call_now = 12, call_request = POST_ratings body\<rparr>"

section \<open>Properties\<close>

subsection \<open>Rounding\<close>

lemma round_half_even_of_int: "round_half_even (of_int n) = n"
  by (simp add: round_half_even_def)

lemma py_round2_exact: "py_round2 (of_int n / 100) = of_int n / 100"
  by (simp add: py_round2_def round_half_even_of_int)

lemma round_half_even_near: "\<bar>of_int (round_half_even x) - x\<bar> \<le> 1 / 2"
  unfolding round_half_even_def Let_def by (auto; linarith)

lemma py_round2_near: "\<bar>py_round2 x - x\<bar> \<le> 1 / 200"
proof -
  have "\<bar>of_int (round_half_even (x * 100)) - x * 100\<bar> \<le> 1 / 2"
    by (rule round_half_even_near)
  then show ?thesis
    unfolding py_round2_def by (simp add: field_simps abs_le_iff)
qed

subsection \<open>Cost table lookups\<close>

lemma volume_factor_lookup: "dict_get VOLUME_FACTORS q 1 = spec_volume_factor q"
  by (simp add: dict_get_def VOLUME_FACTORS_def spec_volume_factor_def)

lemma waste_surcharge_lookup: "dict_get WASTE_SURCHARGES w 1 = spec_waste_surcharge w"
  by (simp add: dict_get_def WASTE_SURCHARGES_def spec_waste_surcharge_def)

lemma calculate_cost_spec: "calculate_cost d q w = spec_cost d q w"
  by (simp add: calculate_cost_def spec_cost_def volume_factor_lookup waste_surcharge_lookup
      RATE_PER_KM_def BASE_RATE_def)

subsection \<open>The haversine computation\<close>

lemma cos_mult_half:
  "cos x * cos y = (cos ((x + y) / 2))\<^sup>2 - (sin ((y - x) / 2))\<^sup>2" for x y :: real
proof -
  define u where "u = (x + y) / 2"
  define v where "v = (y - x) / 2"
  have xy: "u - v = x" "u + v = y"
    by (simp_all add: u_def v_def field_simps)
  have "cos (u - v) * cos (u + v) = (cos u * cos v)\<^sup>2 - (sin u * sin v)\<^sup>2"
    by (simp add: cos_add cos_diff algebra_simps power2_eq_square)
  also have "\<dots> = (cos u)\<^sup>2 * (1 - (sin v)\<^sup>2) - (1 - (cos u)\<^sup>2) * (sin v)\<^sup>2"
    by (simp add: power_mult_distrib cos_squared_eq [of v] sin_squared_eq [of u])
  also have "\<dots> = (cos u)\<^sup>2 - (sin v)\<^sup>2"
    by (simp add: algebra_simps)
  finally show ?thesis
    unfolding xy by (simp only: u_def v_def)
qed

lemma convex_unit:
  fixes s c h :: real
  assumes "0 \<le> s" "s \<le> 1" "0 \<le> c" "c \<le> 1" "0 \<le> h" "h \<le> 1"
  shows "0 \<le> s + (c - s) * h" "s + (c - s) * h \<le> 1"
proof -
  have e: "s + (c - s) * h = s * (1 - h) + c * h" by (simp add: algebra_simps)
  have "0 \<le> s * (1 - h)" "0 \<le> c * h" using assms by simp_all
  then show "0 \<le> s + (c - s) * h" unfolding e by linarith
  have "s * (1 - h) \<le> 1 - h" using mult_right_mono [of s 1 "1 - h"] assms by simp
  moreover have "c * h \<le> h" using mult_right_mono [of c 1 h] assms by simp
  ultimately show "s + (c - s) * h \<le> 1" unfolding e by linarith
qed

lemma sin2_unit: "0 \<le> (sin (x::real))\<^sup>2" "(sin x)\<^sup>2 \<le> 1" "0 \<le> (cos x)\<^sup>2" "(cos x)\<^sup>2 \<le> 1"
  by (simp_all add: abs_square_le_1)

lemma haversine_a_bounds: "0 \<le> haversine_a lat1 lon1 lat2 lon2" "haversine_a lat1 lon1 lat2 lon2 \<le> 1"
proof -
  define x where "x = radians lat1"
  define y where "y = radians lat2"
  define s where "s = (sin ((y - x) / 2))\<^sup>2"
  define c where "c = (cos ((x + y) / 2))\<^sup>2"
  define h where "h = (sin (radians (lon2 - lon1) / 2))\<^sup>2"
  have r: "radians (lat2 - lat1) = y - x"
    by (simp add: radians_def x_def y_def field_simps)
  have a: "haversine_a lat1 lon1 lat2 lon2 = s + (c - s) * h"
    unfolding haversine_a_def Let_def r
    unfolding x_def [symmetric] y_def [symmetric] cos_mult_half [of x y]
    by (simp add: s_def c_def h_def)
  have b: "0 \<le> s" "s \<le> 1" "0 \<le> c" "c \<le> 1" "0 \<le> h" "h \<le> 1"
    unfolding s_def c_def h_def by (rule sin2_unit)+
  show "0 \<le> haversine_a lat1 lon1 lat2 lon2" "haversine_a lat1 lon1 lat2 lon2 \<le> 1"
    unfolding a using convex_unit [OF b] by simp_all
qed

lemma atan2_arcsin:
  assumes "0 \<le> a" "a \<le> 1"
  shows "atan2 (sqrt a) (sqrt (1 - a)) = arcsin (sqrt a)"
proof (cases "a = 1")
  case True
  then show ?thesis by (simp add: atan2_def)
next
  case False
  with assms have lt: "a < 1" by simp
  then have pos: "0 < sqrt (1 - a)" by simp
  have t: "-1 < sqrt a" "sqrt a < 1" using assms lt
    by (simp_all add: real_sqrt_lt_1_iff less_le_trans [of "-1" 0])
  have "(sqrt a)\<^sup>2 = a" using assms by simp
  then have "arcsin (sqrt a) = arctan (sqrt a / sqrt (1 - a))"
    using arcsin_arctan [OF t] by simp
  then show ?thesis using pos by (simp add: atan2_def)
qed

lemma haversine_a_spec:
  "haversine_a lat1 lon1 lat2 lon2 =
     (sin ((lat2 * pi / 180 - lat1 * pi / 180) / 2))\<^sup>2
       + cos (lat1 * pi / 180) * cos (lat2 * pi / 180)
         * (sin ((lon2 * pi / 180 - lon1 * pi / 180) / 2))\<^sup>2"
  by (simp add: haversine_a_def radians_def diff_divide_distrib left_diff_distrib)

text \<open>
  \<^verbatim>\<open>haversine_distance\<close> never raises, and what it returns is the haversine distance of
  the textbook formula.
\<close>

lemma haversine_distance_spec:
  "haversine_distance lat1 lon1 lat2 lon2 = Inr (spec_haversine_km lat1 lon1 lat2 lon2)"
proof -
  define a where "a = haversine_a lat1 lon1 lat2 lon2"
  have b: "0 \<le> a" "a \<le> 1"
    unfolding a_def by (rule haversine_a_bounds)+
  have s: "math_sqrt a = Inr (sqrt a)" "math_sqrt (1 - a) = Inr (sqrt (1 - a))"
    using b by (simp_all add: math_sqrt_def)
  have "haversine_distance lat1 lon1 lat2 lon2 = Inr (6371 * (2 * arcsin (sqrt a)))"
    unfolding haversine_distance_def Let_def a_def [symmetric]
    by (simp add: s atan2_arcsin [OF b])
  also have "\<dots> = Inr (spec_haversine_km lat1 lon1 lat2 lon2)"
    unfolding spec_haversine_km_def Let_def a_def haversine_a_spec by simp
  finally show ?thesis .
qed

subsection \<open>Creating a pickup request\<close>

lemma create_pickup_request_in_area:
  assumes "hub_distance cfg (c_location request) \<le> SERVICE_RADIUS_KM cfg"
  shows "create_pickup_request cfg request uuid now db =
     (let d = hub_distance cfg (c_location request);
          p = \<lparr>pr_id = uuid,
               pr_location = c_location request,
               pr_waste_image = c_waste_image request,
               pr_waste_type = c_waste_type request,
               pr_quantity = c_quantity request,
               pr_estimated_cost =
                 calculate_cost d (Quantity_value (c_quantity request))
                   (WasteType_value (c_waste_type request)),
               pr_actual_cost = None,
               pr_distance_km = py_round2 d,
               pr_status = PENDING,
               pr_user_contact = c_user_contact request,
               pr_notes = c_notes request,
               pr_driver_id = None,
               pr_payment_method = c_payment_method request,
               pr_payment_status = Some PAYMENT_PENDING,
               pr_status_history = [\<lparr>sh_status = ''Pending'', sh_at = now, sh_by = ''user''\<rparr>],
               pr_price_history = [],
               pr_created_at = now,
               pr_updated_at = now\<rparr>
      in (Inr p, db\<lparr>pickup_requests := pickup_requests db @ [p]\<rparr>))"
  using assms
  by (simp add: create_pickup_request_def haversine_distance_spec hub_distance_def Let_def
      insert_one_def)

lemma create_pickup_request_out_of_area:
  assumes "SERVICE_RADIUS_KM cfg < hub_distance cfg (c_location request)"
  shows "create_pickup_request cfg request uuid now db = (Inl OutOfServiceArea, db)"
  using assms
  by (simp add: create_pickup_request_def haversine_distance_spec hub_distance_def
      OutOfServiceArea_def)

subsection \<open>Collections\<close>

lemma find_one_None_iff: "find_one P xs = None \<longleftrightarrow> (\<forall>x\<in>set xs. \<not> P x)"
  by (induction xs) auto

lemma find_one_Some_holds: "find_one P xs = Some x \<Longrightarrow> P x \<and> x \<in> set xs"
  by (induction xs) (auto split: if_splits)

text \<open>\<^verbatim>\<open>update_one\<close> changes the document \<^verbatim>\<open>find_one\<close> returns, in place, and no other.\<close>

lemma find_one_Some_decomp:
  "find_one P xs = Some x \<Longrightarrow>
     \<exists>ys zs. xs = ys @ x # zs \<and> (\<forall>y\<in>set ys. \<not> P y) \<and> update_one P f xs = ys @ f x # zs"
proof (induction xs)
  case Nil
  then show ?case by simp
next
  case (Cons a xs)
  show ?case
  proof (cases "P a")
    case True
    with Cons.prems have "a = x" by simp
    with True have "a # xs = [] @ x # xs \<and> (\<forall>y\<in>set []. \<not> P y)
        \<and> update_one P f (a # xs) = [] @ f x # xs"
      by simp
    then show ?thesis by blast
  next
    case False
    with Cons.prems have "find_one P xs = Some x" by simp
    from Cons.IH [OF this] obtain ys zs where
      "xs = ys @ x # zs" "\<forall>y\<in>set ys. \<not> P y" "update_one P f xs = ys @ f x # zs" by blast
    with False have "a # xs = (a # ys) @ x # zs \<and> (\<forall>y\<in>set (a # ys). \<not> P y)
        \<and> update_one P f (a # xs) = (a # ys) @ f x # zs"
      by simp
    then show ?thesis by blast
  qed
qed

lemma update_one_None: "find_one P xs = None \<Longrightarrow> update_one P f xs = xs"
  by (induction xs) (auto split: if_splits)

lemma length_update_one: "length (update_one P f xs) = length xs"
  by (induction xs) auto

lemma find_one_update_one_same:
  "(\<And>x. P x \<Longrightarrow> P (f x)) \<Longrightarrow> find_one P (update_one P f xs) = map_option f (find_one P xs)"
  by (induction xs) auto

lemma find_one_update_one_other:
  "(\<And>x. Q x \<Longrightarrow> \<not> P x \<and> \<not> P (f x)) \<Longrightarrow> find_one P (update_one Q f xs) = find_one P xs"
  by (induction xs) auto

lemma find_one_append:
  "find_one P (xs @ ys) = (case find_one P xs of Some x \<Rightarrow> Some x | None \<Rightarrow> find_one P ys)"
  by (induction xs) auto

lemma list_all2_update_one:
  assumes "\<And>x. R x x" and "\<And>x. find_one P xs = Some x \<Longrightarrow> R x (f x)"
  shows "list_all2 R xs (update_one P f xs)"
proof (cases "find_one P xs")
  case None
  then show ?thesis by (simp add: update_one_None list_all2_refl assms(1))
next
  case (Some x)
  from find_one_Some_decomp [OF Some, of f] obtain ys zs where
    d: "xs = ys @ x # zs" "update_one P f xs = ys @ f x # zs" by blast
  have "list_all2 R (ys @ x # zs) (ys @ f x # zs)"
    by (intro list_all2_appendI) (simp_all add: list_all2_refl assms(1) assms(2) [OF Some])
  then show ?thesis using d by simp
qed

subsection \<open>The transition table\<close>

lemma valid_transitions_edge:
  "new_status \<in> set (dict_get valid_transitions current_status [])
     \<longleftrightarrow> spec_edge current_status new_status"
  by (cases current_status; cases new_status)
    (simp_all add: dict_get_def valid_transitions_def spec_edge_def)

subsection \<open>Example distances\<close>

lemma example_hub_distance: "hub_distance default_config (c_location example_create_hub) = 0"
  by (simp add: hub_distance_def default_config_def spec_haversine_km_def example_create_hub_def)

lemma example_far_distance:
  "hub_distance default_config (c_location example_create_far) = 6371 * pi / 180"
proof -
  have e: "(27.7271 * pi / 180 - 26.7271 * pi / 180) / 2 = pi / 360"
    by (simp add: field_simps)
  have p: "0 \<le> pi / 360" "pi / 360 \<le> pi / 2" "- (pi / 2) \<le> pi / 360"
    by simp_all
  have "sqrt ((sin (pi / 360))\<^sup>2) = sin (pi / 360)"
    using sin_ge_zero [of "pi / 360"] by simp
  moreover have "arcsin (sin (pi / 360)) = pi / 360"
    by (rule arcsin_sin) (use p in simp_all)
  ultimately show ?thesis
    by (simp add: hub_distance_def default_config_def spec_haversine_km_def
        example_create_far_def e)
qed

lemma example_far_out: "SERVICE_RADIUS_KM default_config < 6371 * pi / 180"
  using pi_ge_two by (simp add: default_config_def)

subsection \<open>Updating a pickup request\<close>

lemma mongo_set_id: "pr_id (mongo_set ud doc) = pr_id doc"
  by (simp add: mongo_set_def Let_def split: option.splits)

lemma PickupRequest_init_valid:
  "pr_payment_status doc \<noteq> None \<Longrightarrow> PickupRequest_init doc = Inr doc"
  by (simp add: PickupRequest_init_def)

lemma PickupRequest_init_Inr: "PickupRequest_init doc = Inr p \<Longrightarrow> p = doc \<and> pr_payment_status doc \<noteq> None"
  by (simp add: PickupRequest_init_def split: if_splits)

lemma update_pickup_request_absent:
  "find_one (\<lambda>doc. pr_id doc = request_id) (pickup_requests db) = None \<Longrightarrow>
     update_pickup_request request_id update admin now db = (Inl (NotFound ''Pickup request''), db)"
  by (simp add: update_pickup_request_def NotFound_def)

lemma update_pickup_request_invalid_doc:
  "find_one (\<lambda>doc. pr_id doc = request_id) (pickup_requests db) = Some existing \<Longrightarrow>
   pr_payment_status existing = None \<Longrightarrow>
     update_pickup_request request_id update admin now db = (Inl (Unhandled ''ValidationError''), db)"
  by (simp add: update_pickup_request_def PickupRequest_init_def)

lemma update_pickup_request_rejected:
  "find_one (\<lambda>doc. pr_id doc = request_id) (pickup_requests db) = Some existing \<Longrightarrow>
   pr_payment_status existing \<noteq> None \<Longrightarrow>
   validate_status_transition existing update admin now = Inl e \<Longrightarrow>
     update_pickup_request request_id update admin now db = (Inl e, db)"
  by (auto simp add: update_pickup_request_def PickupRequest_init_def)

lemma update_pickup_request_written:
  assumes "find_one (\<lambda>doc. pr_id doc = request_id) (pickup_requests db) = Some existing"
    and "pr_payment_status existing \<noteq> None"
    and "validate_status_transition existing update admin now = Inr ud0"
  shows "update_pickup_request request_id update admin now db =
     (PickupRequest_init (mongo_set (update_data_of existing ud0 admin now) existing),
      db\<lparr>pickup_requests :=
           update_one (\<lambda>doc. pr_id doc = request_id)
             (mongo_set (update_data_of existing ud0 admin now)) (pickup_requests db)\<rparr>)"
  using assms
  by (simp add: update_pickup_request_def PickupRequest_init_valid Let_def update_data_of_def
      find_one_update_one_same mongo_set_id PickupRequest_of_found_def)

lemma validate_status_transition_unset:
  "u_status update = None \<Longrightarrow>
     validate_status_transition pickup update admin now =
       Inr \<lparr>ud_status = None, ud_actual_cost = u_actual_cost update, ud_notes = u_notes update,
            ud_payment_status = u_payment_status update, ud_status_history = None,
            ud_price_history = None, ud_updated_at = None\<rparr>"
  by (simp add: validate_status_transition_def)

lemma validate_status_transition_null:
  "u_status update = Some None \<Longrightarrow>
     validate_status_transition pickup update admin now = Inl (Unhandled ''AttributeError'')"
  by (simp add: validate_status_transition_def)

lemma validate_status_transition_bad_edge:
  "u_status update = Some (Some requested) \<Longrightarrow> \<not> spec_edge (pr_status pickup) requested \<Longrightarrow>
     validate_status_transition pickup update admin now =
       Inl (InvalidTransition (pr_status pickup) requested)"
  by (simp add: validate_status_transition_def valid_transitions_edge InvalidTransition_def)

lemma validate_status_transition_edge:
  "u_status update = Some (Some requested) \<Longrightarrow> spec_edge (pr_status pickup) requested \<Longrightarrow>
     validate_status_transition pickup update admin now =
       Inr \<lparr>ud_status = Some requested, ud_actual_cost = u_actual_cost update,
            ud_notes = u_notes update, ud_payment_status = u_payment_status update,
            ud_status_history = Some (pr_status_history pickup @
              [\<lparr>sh_status = PickupStatus_value requested, sh_at = now, sh_by = username admin\<rparr>]),
            ud_price_history = None, ud_updated_at = None\<rparr>"
  by (simp add: validate_status_transition_def valid_transitions_edge)

lemma mongo_set_status:
  "pr_status (mongo_set ud doc) = (case ud_status ud of None \<Rightarrow> pr_status doc | Some v \<Rightarrow> v)"
  by (simp add: mongo_set_def Let_def split: option.splits)

lemma mongo_set_status_history:
  "pr_status_history (mongo_set ud doc) =
     (case ud_status_history ud of None \<Rightarrow> pr_status_history doc | Some v \<Rightarrow> v)"
  by (simp add: mongo_set_def Let_def split: option.splits)

lemma mongo_set_actual_cost:
  "pr_actual_cost (mongo_set ud doc) =
     (case ud_actual_cost ud of None \<Rightarrow> pr_actual_cost doc | Some v \<Rightarrow> v)"
  by (simp add: mongo_set_def Let_def split: option.splits)

lemma mongo_set_price_history:
  "pr_price_history (mongo_set ud doc) =
     (case ud_price_history ud of None \<Rightarrow> pr_price_history doc | Some v \<Rightarrow> v)"
  by (simp add: mongo_set_def Let_def split: option.splits)

lemma mongo_set_payment_status:
  "pr_payment_status (mongo_set ud doc) =
     (case ud_payment_status ud of None \<Rightarrow> pr_payment_status doc | Some v \<Rightarrow> v)"
  by (simp add: mongo_set_def Let_def split: option.splits)

lemma mongo_set_driver_id: "pr_driver_id (mongo_set ud doc) = pr_driver_id doc"
  by (simp add: mongo_set_def Let_def split: option.splits)

lemma update_data_of_fields:
  "ud_status (update_data_of pickup ud0 admin now) = ud_status ud0"
  "ud_status_history (update_data_of pickup ud0 admin now) = ud_status_history ud0"
  "ud_actual_cost (update_data_of pickup ud0 admin now) = ud_actual_cost ud0"
  "ud_payment_status (update_data_of pickup ud0 admin now) = ud_payment_status ud0"
  "ud_notes (update_data_of pickup ud0 admin now) = ud_notes ud0"
  by (simp_all add: update_data_of_def track_price_changes_def split: option.splits)

lemma update_data_of_price_history:
  "ud_price_history (update_data_of pickup ud0 admin now) =
     (case ud_actual_cost ud0 of
        Some (Some actual_cost) \<Rightarrow> Some (pr_price_history pickup @
            [\<lparr>ph_actual_cost = actual_cost, ph_at = now, ph_by = username admin\<rparr>])
      | _ \<Rightarrow> ud_price_history ud0)"
  by (simp add: update_data_of_def track_price_changes_def split: option.splits)

subsection \<open>The example workflow\<close>

lemma example_find_pending:
  "find_one (\<lambda>doc. pr_id doc = ''id-1'') (pickup_requests example_db_pending) = Some example_pickup"
  by (simp add: example_db_pending_def example_pickup_def)

lemma example_create:
  "create_pickup_request default_config example_create_hub ''id-1'' 7 empty_database
     = (Inr example_pickup, example_db_pending)"
proof -
  have a: "hub_distance default_config (c_location example_create_hub)
      \<le> SERVICE_RADIUS_KM default_config"
    by (simp only: example_hub_distance) (simp add: default_config_def)
  have c: "calculate_cost 0 ''Medium'' ''Plastic'' = 75"
    by (simp add: calculate_cost_spec spec_cost_def spec_volume_factor_def
        spec_waste_surcharge_def py_round2_def round_half_even_def)
  show ?thesis
    unfolding create_pickup_request_in_area [OF a] Let_def example_hub_distance
    by (simp add: example_create_hub_def c py_round2_def round_half_even_def
        example_pickup_def example_db_pending_def empty_database_def)
qed

lemma example_approve:
  "update_pickup_request ''id-1'' example_update_approve example_admin 8 example_db_pending
     = (Inr example_pickup_approved,
        \<lparr>pickup_requests = [example_pickup_approved], drivers = [], ratings = []\<rparr>)"
  by (simp add: update_pickup_request_def example_db_pending_def example_pickup_def
      example_update_approve_def example_admin_def PickupRequest_init_def
      validate_status_transition_def dict_get_def valid_transitions_def
      track_price_changes_def mongo_set_def PickupRequest_of_found_def
      example_pickup_approved_def Let_def)

lemma example_assign:
  "assign_driver ''id-1'' ''drv-1'' example_admin 10 example_db_approved
     = (Inr example_pickup_assigned, example_db_assigned)"
  by (simp add: assign_driver_def example_db_approved_def example_pickup_approved_def
      example_pickup_def example_driver_def example_admin_def PickupRequest_init_def
      PickupRequest_of_found_def example_pickup_assigned_def example_db_assigned_def Let_def)

lemma example_complete:
  "update_pickup_request ''id-1'' (example_update_status COMPLETED) example_admin 11 example_db_assigned
     = (Inr example_pickup_completed, example_db_completed)"
  by (simp add: update_pickup_request_def example_db_assigned_def example_pickup_assigned_def
      example_pickup_approved_def example_pickup_def
      example_update_status_def example_admin_def PickupRequest_init_def
      validate_status_transition_def dict_get_def valid_transitions_def
      track_price_changes_def mongo_set_def PickupRequest_of_found_def
      example_pickup_completed_def example_db_completed_def Let_def)

lemma example_rate:
  "create_rating \<lparr>rc_pickup_id = ''id-1'', rc_rating = 5, rc_feedback = Some ''Great''\<rparr> ''rat-1'' 12
      example_db_completed
     = (Inr example_rating, example_db_rated)"
  by (simp add: create_rating_def example_db_completed_def example_pickup_completed_def
      example_pickup_assigned_def example_pickup_approved_def example_pickup_def
      Rating_init_def insert_one_def example_rating_def example_db_rated_def)

lemma example_run: "run default_config example_calls empty_database = example_db_rated"
proof -
  have v: "validate_image_size example_create_hub = Inr example_create_hub"
    by (simp add: validate_image_size_def example_create_hub_def)
  have adm: "get_current_admin (Some ''admin'') = Inr example_admin"
    by (simp add: get_current_admin_def example_admin_def)
  have drv: "create_driver \<lparr>dc_name = ''Asha'', dc_phone = ''555-0100'', dc_vehicle_type = ''Truck'',
          dc_vehicle_number = ''WB-01''\<rparr> ''drv-1'' 9 \<lparr>pickup_requests = [example_pickup_approved], drivers = [], ratings = []\<rparr>
      = (Inr example_driver, example_db_approved)"
    by (simp add: create_driver_def insert_one_def example_driver_def example_db_approved_def Let_def)
  show ?thesis
    by (simp add: example_calls_def api_def v adm respond_def example_create example_approve drv
        example_assign example_complete RatingCreate_validate_def example_rate)
qed

lemma example_find_approved:
  "find_one (\<lambda>doc. pr_id doc = ''id-1'') (pickup_requests example_db_approved)
     = Some example_pickup_approved"
  by (simp add: example_db_approved_def example_pickup_approved_def example_pickup_def)

subsection \<open>The error paths of an update\<close>

lemma validate_status_transition_Inr:
  "validate_status_transition pickup update admin now = Inr ud0 \<Longrightarrow>
     ud_payment_status ud0 = u_payment_status update \<and> ud_actual_cost ud0 = u_actual_cost update
     \<and> ud_notes ud0 = u_notes update \<and> ud_price_history ud0 = None"
  by (auto simp add: validate_status_transition_def Let_def split: option.splits if_splits)

text \<open>
  Every path of \<open>update_pickup_request\<close> that ends in an exception leaves the database as
  it was, but one: a body that sets the payment status to null is written, and the
  exception comes from rebuilding the request out of the written document.
\<close>

lemma update_pickup_request_error_paths:
  assumes "update_pickup_request request_id update admin now db = (Inl e, db')"
  shows "db' = db \<or> (e = Unhandled ''ValidationError'' \<and> u_payment_status update = Some None)"
proof (cases "find_one (\<lambda>doc. pr_id doc = request_id) (pickup_requests db)")
  case None
  then show ?thesis using assms by (simp add: update_pickup_request_absent)
next
  case (Some existing)
  show ?thesis
  proof (cases "pr_payment_status existing = None")
    case True
    then show ?thesis using assms by (simp add: update_pickup_request_invalid_doc [OF Some])
  next
    case False
    show ?thesis
    proof (cases "validate_status_transition existing update admin now")
      case (Inl e')
      then show ?thesis
        using assms by (simp add: update_pickup_request_rejected [OF Some False])
    next
      case (Inr ud0)
      from assms have
        i: "PickupRequest_init (mongo_set (update_data_of existing ud0 admin now) existing) = Inl e"
        by (simp add: update_pickup_request_written [OF Some False Inr])
      then have "e = Unhandled ''ValidationError''"
        and "pr_payment_status (mongo_set (update_data_of existing ud0 admin now) existing) = None"
        by (auto simp add: PickupRequest_init_def split: if_splits)
      then show ?thesis
        using False validate_status_transition_Inr [OF Inr]
        by (auto simp add: mongo_set_payment_status update_data_of_fields split: option.splits)
    qed
  qed
qed

lemma update_pickup_request_HTTPException:
  "update_pickup_request request_id update admin now db = (Inl (HTTPException code detail), db')
     \<Longrightarrow> db' = db"
  using update_pickup_request_error_paths by blast

subsection \<open>Assigning a driver\<close>

lemma assign_driver_absent:
  "find_one (\<lambda>doc. pr_id doc = request_id) (pickup_requests db) = None \<Longrightarrow>
     assign_driver request_id driver_id admin now db = (Inl (NotFound ''Pickup request''), db)"
  by (simp add: assign_driver_def NotFound_def)

lemma assign_driver_invalid_doc:
  "find_one (\<lambda>doc. pr_id doc = request_id) (pickup_requests db) = Some pickup \<Longrightarrow>
   pr_payment_status pickup = None \<Longrightarrow>
     assign_driver request_id driver_id admin now db = (Inl (Unhandled ''ValidationError''), db)"
  by (simp add: assign_driver_def PickupRequest_init_def)

lemma assign_driver_not_approved:
  "find_one (\<lambda>doc. pr_id doc = request_id) (pickup_requests db) = Some pickup \<Longrightarrow>
   pr_payment_status pickup \<noteq> None \<Longrightarrow> pr_status pickup \<noteq> APPROVED \<Longrightarrow>
     assign_driver request_id driver_id admin now db = (Inl InvalidState_not_approved, db)"
  by (auto simp add: assign_driver_def PickupRequest_init_def InvalidState_not_approved_def)

lemma assign_driver_no_driver:
  "find_one (\<lambda>doc. pr_id doc = request_id) (pickup_requests db) = Some pickup \<Longrightarrow>
   pr_payment_status pickup \<noteq> None \<Longrightarrow> pr_status pickup = APPROVED \<Longrightarrow>
   find_one (\<lambda>doc. d_id doc = driver_id) (drivers db) = None \<Longrightarrow>
     assign_driver request_id driver_id admin now db = (Inl (NotFound ''Driver''), db)"
  by (auto simp add: assign_driver_def PickupRequest_init_def NotFound_def)

lemma assign_driver_unavailable:
  "find_one (\<lambda>doc. pr_id doc = request_id) (pickup_requests db) = Some pickup \<Longrightarrow>
   pr_payment_status pickup \<noteq> None \<Longrightarrow> pr_status pickup = APPROVED \<Longrightarrow>
   find_one (\<lambda>doc. d_id doc = driver_id) (drivers db) = Some driver \<Longrightarrow>
   d_status driver \<noteq> AVAILABLE \<Longrightarrow>
     assign_driver request_id driver_id admin now db = (Inl DriverUnavailable, db)"
  by (auto simp add: assign_driver_def PickupRequest_init_def DriverUnavailable_def)

lemma assign_driver_success:
  assumes "find_one (\<lambda>doc. pr_id doc = request_id) (pickup_requests db) = Some pickup"
    and "pr_payment_status pickup \<noteq> None" and "pr_status pickup = APPROVED"
    and "find_one (\<lambda>doc. d_id doc = driver_id) (drivers db) = Some driver"
    and "d_status driver = AVAILABLE"
  shows "assign_driver request_id driver_id admin now db =
     (Inr (assigned_doc driver_id admin now pickup pickup),
      db\<lparr>pickup_requests :=
           update_one (\<lambda>doc. pr_id doc = request_id) (assigned_doc driver_id admin now pickup)
             (pickup_requests db),
         drivers :=
           update_one (\<lambda>doc. d_id doc = driver_id) (\<lambda>doc. doc\<lparr>d_status := BUSY\<rparr>) (drivers db)\<rparr>)"
proof -
  have f: "find_one (\<lambda>doc. pr_id doc = request_id)
      (update_one (\<lambda>doc. pr_id doc = request_id) (assigned_doc driver_id admin now pickup)
         (pickup_requests db)) = Some (assigned_doc driver_id admin now pickup pickup)"
    using assms(1) by (simp add: find_one_update_one_same assigned_doc_def)
  have i: "PickupRequest_init (assigned_doc driver_id admin now pickup pickup)
      = Inr (assigned_doc driver_id admin now pickup pickup)"
    using assms(2) by (simp add: PickupRequest_init_def assigned_doc_def)
  have a: "(\<lambda>doc. doc\<lparr>pr_driver_id := Some driver_id, pr_status := ASSIGNED,
         pr_status_history := pr_status_history pickup @
           [\<lparr>sh_status = PickupStatus_value ASSIGNED, sh_at = now, sh_by = username admin\<rparr>],
         pr_updated_at := now\<rparr>) = assigned_doc driver_id admin now pickup"
    by (simp add: assigned_doc_def fun_eq_iff)
  show ?thesis
    using assms
    by (simp add: assign_driver_def PickupRequest_init_valid Let_def a f
        PickupRequest_of_found_def i del: PickupStatus_value.simps)
qed

lemma assign_driver_Inr:
  assumes "assign_driver request_id driver_id admin now db = (Inr r, db')"
  shows "\<exists>pickup driver.
      find_one (\<lambda>doc. pr_id doc = request_id) (pickup_requests db) = Some pickup
    \<and> pr_payment_status pickup \<noteq> None \<and> pr_status pickup = APPROVED
    \<and> find_one (\<lambda>doc. d_id doc = driver_id) (drivers db) = Some driver
    \<and> d_status driver = AVAILABLE"
proof (cases "find_one (\<lambda>doc. pr_id doc = request_id) (pickup_requests db)")
  case None
  then show ?thesis using assms by (simp add: assign_driver_absent)
next
  case (Some pickup)
  note p = this
  show ?thesis
  proof (cases "pr_payment_status pickup = None")
    case True
    then show ?thesis using assms by (simp add: assign_driver_invalid_doc [OF p])
  next
    case False
    note v = this
    show ?thesis
    proof (cases "pr_status pickup = APPROVED")
      case False
      then show ?thesis using assms by (simp add: assign_driver_not_approved [OF p v])
    next
      case True
      note a = this
      show ?thesis
      proof (cases "find_one (\<lambda>doc. d_id doc = driver_id) (drivers db)")
        case None
        then show ?thesis using assms by (simp add: assign_driver_no_driver [OF p v a])
      next
        case (Some driver)
        show ?thesis
        proof (cases "d_status driver = AVAILABLE")
          case False
          then show ?thesis using assms by (simp add: assign_driver_unavailable [OF p v a Some])
        next
          case True
          then show ?thesis using p v a Some by simp
        qed
      qed
    qed
  qed
qed

subsection \<open>One call and the stored pickup requests\<close>

lemma spec_edge_neq: "spec_edge a b \<Longrightarrow> a \<noteq> b"
  by (auto simp add: spec_edge_def)

lemma request_step_refl: "request_step p p"
  by (simp add: request_step_def history_step_def)

lemma validate_status_transition_Inr_cases:
  assumes "validate_status_transition pickup update admin now = Inr ud0"
  shows "(ud_status ud0 = None \<and> ud_status_history ud0 = None)
     \<or> (\<exists>s. ud_status ud0 = Some s \<and> spec_edge (pr_status pickup) s
           \<and> ud_status_history ud0 = Some (pr_status_history pickup @
                [\<lparr>sh_status = PickupStatus_value s, sh_at = now, sh_by = username admin\<rparr>]))"
proof (cases "u_status update")
  case None
  with assms show ?thesis by (auto simp add: validate_status_transition_unset)
next
  case (Some v)
  show ?thesis
  proof (cases v)
    case None
    with Some assms show ?thesis by (simp add: validate_status_transition_null)
  next
    case (Some s)
    note s = \<open>u_status update = Some v\<close> [unfolded Some]
    show ?thesis
    proof (cases "spec_edge (pr_status pickup) s")
      case True
      from assms show ?thesis
        unfolding validate_status_transition_edge [OF s True] using True by auto
    next
      case False
      from assms show ?thesis
        unfolding validate_status_transition_bad_edge [OF s False] by simp
    qed
  qed
qed

lemma mongo_set_request_step:
  assumes "validate_status_transition existing update admin now = Inr ud0"
  shows "request_step existing (mongo_set (update_data_of existing ud0 admin now) existing)"
  using validate_status_transition_Inr_cases [OF assms]
  by (auto simp add: request_step_def history_step_def mongo_set_id mongo_set_status
      mongo_set_status_history update_data_of_fields dest: spec_edge_neq
      simp del: PickupStatus_value.simps)

lemma update_pickup_request_step:
  "list_all2 request_step (pickup_requests db)
     (pickup_requests (snd (update_pickup_request request_id update admin now db)))"
proof (cases "find_one (\<lambda>doc. pr_id doc = request_id) (pickup_requests db)")
  case None
  then show ?thesis
    by (simp add: update_pickup_request_absent list_all2_refl request_step_refl)
next
  case (Some existing)
  show ?thesis
  proof (cases "pr_payment_status existing = None")
    case True
    then show ?thesis
      by (simp add: update_pickup_request_invalid_doc [OF Some] list_all2_refl request_step_refl)
  next
    case False
    show ?thesis
    proof (cases "validate_status_transition existing update admin now")
      case (Inl e)
      then show ?thesis
        by (simp add: update_pickup_request_rejected [OF Some False] list_all2_refl
            request_step_refl)
    next
      case (Inr ud0)
      show ?thesis
        unfolding update_pickup_request_written [OF Some False Inr]
        by (simp, rule list_all2_update_one)
          (simp_all add: request_step_refl Some mongo_set_request_step [OF Inr])
    qed
  qed
qed

lemma assigned_doc_request_step:
  "pr_status pickup = APPROVED \<Longrightarrow>
     request_step pickup (assigned_doc driver_id admin now pickup pickup)"
  by (simp add: request_step_def history_step_def assigned_doc_def spec_edge_def)

lemma assign_driver_db:
  "snd (assign_driver request_id driver_id admin now db) = db
   \<or> (\<exists>pickup driver.
        find_one (\<lambda>doc. pr_id doc = request_id) (pickup_requests db) = Some pickup
      \<and> pr_payment_status pickup \<noteq> None \<and> pr_status pickup = APPROVED
      \<and> find_one (\<lambda>doc. d_id doc = driver_id) (drivers db) = Some driver
      \<and> d_status driver = AVAILABLE
      \<and> assign_driver request_id driver_id admin now db =
          (Inr (assigned_doc driver_id admin now pickup pickup),
           db\<lparr>pickup_requests :=
                update_one (\<lambda>doc. pr_id doc = request_id)
                  (assigned_doc driver_id admin now pickup) (pickup_requests db),
              drivers :=
                update_one (\<lambda>doc. d_id doc = driver_id) (\<lambda>doc. doc\<lparr>d_status := BUSY\<rparr>)
                  (drivers db)\<rparr>))"
proof (cases "assign_driver request_id driver_id admin now db")
  case (Pair out db')
  show ?thesis
  proof (cases out)
    case (Inl e)
    have "db' = db"
      using Pair Inl
      by (auto simp add: assign_driver_def Let_def PickupRequest_of_found_def
          PickupRequest_init_def find_one_update_one_same
          split: option.splits sum.splits if_splits)
    with Pair show ?thesis by simp
  next
    case (Inr r)
    from assign_driver_Inr [OF Pair [unfolded Inr]] obtain pickup driver where
      h: "find_one (\<lambda>doc. pr_id doc = request_id) (pickup_requests db) = Some pickup"
      "pr_payment_status pickup \<noteq> None" "pr_status pickup = APPROVED"
      "find_one (\<lambda>doc. d_id doc = driver_id) (drivers db) = Some driver"
      "d_status driver = AVAILABLE" by blast
    from h assign_driver_success [OF h, of admin now] show ?thesis by blast
  qed
qed

lemma assign_driver_step:
  "list_all2 request_step (pickup_requests db)
     (pickup_requests (snd (assign_driver request_id driver_id admin now db)))"
  using assign_driver_db [of request_id driver_id admin now db]
proof (elim disjE exE conjE)
  assume "snd (assign_driver request_id driver_id admin now db) = db"
  then show ?thesis by (simp add: list_all2_refl request_step_refl)
next
  fix pickup driver
  assume p: "find_one (\<lambda>doc. pr_id doc = request_id) (pickup_requests db) = Some pickup"
    and a: "pr_status pickup = APPROVED"
    and e: "assign_driver request_id driver_id admin now db =
          (Inr (assigned_doc driver_id admin now pickup pickup),
           db\<lparr>pickup_requests :=
                update_one (\<lambda>doc. pr_id doc = request_id)
                  (assigned_doc driver_id admin now pickup) (pickup_requests db),
              drivers :=
                update_one (\<lambda>doc. d_id doc = driver_id) (\<lambda>doc. doc\<lparr>d_status := BUSY\<rparr>)
                  (drivers db)\<rparr>)"
  show ?thesis
    unfolding e
    by (simp, rule list_all2_update_one)
      (simp_all add: request_step_refl p assigned_doc_request_step [OF a])
qed

lemma create_pickup_request_db:
  "snd (create_pickup_request cfg request uuid now db) = db
   \<or> (\<exists>p. create_pickup_request cfg request uuid now db
            = (Inr p, db\<lparr>pickup_requests := pickup_requests db @ [p]\<rparr>)
          \<and> history_ok p \<and> pr_status p = PENDING \<and> pr_driver_id p = None
          \<and> pr_payment_status p \<noteq> None)"
proof (cases "hub_distance cfg (c_location request) \<le> SERVICE_RADIUS_KM cfg")
  case True
  show ?thesis
    unfolding create_pickup_request_in_area [OF True] Let_def
    by (simp add: history_ok_def)
next
  case False
  then have "SERVICE_RADIUS_KM cfg < hub_distance cfg (c_location request)" by simp
  then show ?thesis by (simp add: create_pickup_request_out_of_area)
qed

lemma snd_respond: "snd (respond wrap out) = snd out"
  by (simp add: respond_def split: sum.splits)

lemma update_driver_status_pickups:
  "pickup_requests (snd (update_driver_status driver_id status db)) = pickup_requests db"
  "ratings (snd (update_driver_status driver_id status db)) = ratings db"
  by (simp_all add: update_driver_status_def Let_def split: option.splits)

lemma create_driver_pickups:
  "pickup_requests (snd (create_driver driver uuid now db)) = pickup_requests db"
  "ratings (snd (create_driver driver uuid now db)) = ratings db"
  by (simp_all add: create_driver_def Let_def)

lemma create_rating_pickups:
  "pickup_requests (snd (create_rating rating uuid now db)) = pickup_requests db"
  "drivers (snd (create_rating rating uuid now db)) = drivers db"
  by (simp_all add: create_rating_def split: option.splits sum.splits)

text \<open>What one call does to the collection of pickup requests.\<close>

lemma api_pickup_requests:
  "\<exists>olds new. pickup_requests (snd (api cfg c db)) = olds @ new
     \<and> list_all2 request_step (pickup_requests db) olds
     \<and> (\<forall>p\<in>set new. history_ok p \<and> pr_driver_id p = None) \<and> (new = [] \<or> (\<exists>p. new = [p]))"
proof -
  have same: "pickup_requests db' = pickup_requests db \<Longrightarrow>
      \<exists>olds new. pickup_requests db' = olds @ new
     \<and> list_all2 request_step (pickup_requests db) olds
     \<and> (\<forall>p\<in>set new. history_ok p \<and> pr_driver_id p = None) \<and> (new = [] \<or> (\<exists>p. new = [p]))" for db'
    by (rule exI [of _ "pickup_requests db"], rule exI [of _ "[]"])
      (simp add: list_all2_refl request_step_refl)
  have stepped: "list_all2 request_step (pickup_requests db) (pickup_requests db') \<Longrightarrow>
      \<exists>olds new. pickup_requests db' = olds @ new
     \<and> list_all2 request_step (pickup_requests db) olds
     \<and> (\<forall>p\<in>set new. history_ok p \<and> pr_driver_id p = None) \<and> (new = [] \<or> (\<exists>p. new = [p]))" for db'
    by (rule exI [of _ "pickup_requests db'"], rule exI [of _ "[]"]) simp
  show ?thesis
  proof (cases "call_request c")
    case (POST_pickup_requests body)
    show ?thesis
    proof (cases "validate_image_size body")
      case (Inl e)
      then show ?thesis using POST_pickup_requests by (simp add: api_def same)
    next
      case (Inr request)
      from create_pickup_request_db [of cfg request "call_uuid c" "call_now c" db]
      show ?thesis
      proof (elim disjE exE conjE)
        assume "snd (create_pickup_request cfg request (call_uuid c) (call_now c) db) = db"
        then show ?thesis
          using POST_pickup_requests Inr by (simp add: api_def snd_respond same)
      next
        fix p
        assume "create_pickup_request cfg request (call_uuid c) (call_now c) db
            = (Inr p, db\<lparr>pickup_requests := pickup_requests db @ [p]\<rparr>)"
          and "history_ok p" and "pr_driver_id p = None"
        then have "pickup_requests (snd (api cfg c db)) = pickup_requests db @ [p]
            \<and> list_all2 request_step (pickup_requests db) (pickup_requests db)
            \<and> (\<forall>q\<in>set [p]. history_ok q \<and> pr_driver_id q = None) \<and> ([p] = [] \<or> (\<exists>q. [p] = [q]))"
          using POST_pickup_requests Inr
          by (simp add: api_def snd_respond list_all2_refl request_step_refl)
        then show ?thesis by blast
      qed
    qed
  next
    case (PUT_pickup_request request_id update)
    then show ?thesis
      by (cases "get_current_admin (call_token c)")
        (simp_all add: api_def snd_respond same stepped update_pickup_request_step)
  next
    case (POST_assign_driver request_id driver_id)
    then show ?thesis
      by (cases "get_current_admin (call_token c)")
        (simp_all add: api_def snd_respond same stepped assign_driver_step)
  next
    case (POST_drivers driver)
    then show ?thesis
      by (cases "get_current_admin (call_token c)")
        (simp_all add: api_def snd_respond same create_driver_pickups)
  next
    case (PUT_driver_status driver_id status)
    then show ?thesis
      by (cases "get_current_admin (call_token c)")
        (simp_all add: api_def snd_respond same update_driver_status_pickups)
  next
    case (POST_ratings body)
    then show ?thesis
      by (cases "RatingCreate_validate body")
        (simp_all add: api_def snd_respond same create_rating_pickups)
  qed
qed

subsection \<open>The status history over a run\<close>

lemma history_step_ok: "history_ok p \<Longrightarrow> history_step p p' \<Longrightarrow> history_ok p'"
proof (cases "pr_status p' = pr_status p")
  case True
  assume "history_ok p" "history_step p p'"
  with True show ?thesis by (simp add: history_ok_def history_step_def)
next
  case False
  assume "history_step p p'"
  with False have e: "pr_status_history p' = pr_status_history p @ [last (pr_status_history p')]"
    and s: "sh_status (last (pr_status_history p')) = PickupStatus_value (pr_status p')"
    by (simp_all add: history_step_def)
  from e have "pr_status_history p' \<noteq> []" by (metis snoc_eq_iff_butlast)
  with s show ?thesis by (simp add: history_ok_def)
qed

lemma request_step_history: "request_step p p' \<Longrightarrow> history_step p p'"
  by (simp add: request_step_def)

lemma api_history_ok:
  assumes "\<forall>p\<in>set (pickup_requests db). history_ok p"
  shows "\<forall>p\<in>set (pickup_requests (snd (api cfg c db))). history_ok p"
proof -
  from api_pickup_requests [of cfg c db] obtain olds new where
    e: "pickup_requests (snd (api cfg c db)) = olds @ new"
    and s: "list_all2 request_step (pickup_requests db) olds"
    and n: "\<forall>p\<in>set new. history_ok p \<and> pr_driver_id p = None" by blast
  have "history_ok q" if "q \<in> set olds" for q
  proof -
    from that obtain i where i: "i < length olds" "olds ! i = q"
      by (auto simp add: in_set_conv_nth)
    from s i have "request_step (pickup_requests db ! i) q" "i < length (pickup_requests db)"
      by (auto simp add: list_all2_conv_all_nth)
    with assms show ?thesis
      using history_step_ok [OF _ request_step_history] nth_mem by blast
  qed
  with n show ?thesis by (auto simp add: e)
qed

lemma run_history_ok:
  "\<forall>p\<in>set (pickup_requests db). history_ok p \<Longrightarrow>
     \<forall>p\<in>set (pickup_requests (run cfg calls db)). history_ok p"
proof (induction calls arbitrary: db)
  case Nil
  then show ?case by simp
next
  case (Cons c calls)
  from Cons.IH [OF api_history_ok [OF Cons.prems]] show ?case by simp
qed

lemma api_history_step:
  "length (pickup_requests db) \<le> length (pickup_requests (snd (api cfg c db)))
   \<and> (\<forall>i<length (pickup_requests db).
        request_step (pickup_requests db ! i) (pickup_requests (snd (api cfg c db)) ! i))"
proof -
  from api_pickup_requests [of cfg c db] obtain olds new where
    e: "pickup_requests (snd (api cfg c db)) = olds @ new"
    and s: "list_all2 request_step (pickup_requests db) olds" by blast
  from s have l: "length olds = length (pickup_requests db)"
    by (simp add: list_all2_lengthD)
  from s show ?thesis
    by (auto simp add: e l nth_append list_all2_conv_all_nth)
qed

lemma example_api_approve:
  "api default_config
     \<lparr>call_token = Some ''admin'', call_uuid = ''u-2'', call_now = 8,
      call_request = PUT_pickup_request ''id-1'' example_update_approve\<rparr> example_db_pending
   = (Inr (PickupRequest_response example_pickup_approved),
      \<lparr>pickup_requests = [example_pickup_approved], drivers = [], ratings = []\<rparr>)"
proof -
  have adm: "get_current_admin (Some ''admin'') = Inr example_admin"
    by (simp add: get_current_admin_def example_admin_def)
  show ?thesis by (simp add: api_def adm respond_def example_approve)
qed

subsection \<open>Ratings\<close>

lemma PickupStatus_value_eq: "PickupStatus_value a = PickupStatus_value b \<longleftrightarrow> a = b"
  by (cases a; cases b) simp_all

lemma create_rating_absent:
  "find_one (\<lambda>doc. pr_id doc = rc_pickup_id rating) (pickup_requests db) = None \<Longrightarrow>
     create_rating rating uuid now db = (Inl (NotFound ''Pickup request''), db)"
  by (simp add: create_rating_def NotFound_def)

lemma create_rating_not_completed:
  "find_one (\<lambda>doc. pr_id doc = rc_pickup_id rating) (pickup_requests db) = Some pickup \<Longrightarrow>
   pr_status pickup \<noteq> COMPLETED \<Longrightarrow>
     create_rating rating uuid now db = (Inl InvalidState_not_completed, db)"
  using PickupStatus_value_eq [of "pr_status pickup" COMPLETED]
  by (simp add: create_rating_def InvalidState_not_completed_def del: PickupStatus_value.simps)

lemma create_rating_conflict:
  "find_one (\<lambda>doc. pr_id doc = rc_pickup_id rating) (pickup_requests db) = Some pickup \<Longrightarrow>
   pr_status pickup = COMPLETED \<Longrightarrow>
   find_one (\<lambda>doc. r_pickup_id doc = rc_pickup_id rating) (ratings db) = Some existing \<Longrightarrow>
     create_rating rating uuid now db = (Inl Conflict, db)"
  by (simp add: create_rating_def Conflict_def)

lemma create_rating_success:
  "find_one (\<lambda>doc. pr_id doc = rc_pickup_id rating) (pickup_requests db) = Some pickup \<Longrightarrow>
   pr_status pickup = COMPLETED \<Longrightarrow>
   find_one (\<lambda>doc. r_pickup_id doc = rc_pickup_id rating) (ratings db) = None \<Longrightarrow>
   1 \<le> rc_rating rating \<Longrightarrow> rc_rating rating \<le> 5 \<Longrightarrow>
     create_rating rating uuid now db =
       (Inr \<lparr>r_id = uuid, r_pickup_id = rc_pickup_id rating, r_rating = rc_rating rating,
             r_feedback = rc_feedback rating, r_created_at = now\<rparr>,
        db\<lparr>ratings := ratings db @
             [\<lparr>r_id = uuid, r_pickup_id = rc_pickup_id rating, r_rating = rc_rating rating,
               r_feedback = rc_feedback rating, r_created_at = now\<rparr>]\<rparr>)"
  by (simp add: create_rating_def Rating_init_def insert_one_def)

lemma create_rating_ratings:
  "ratings (snd (create_rating rating uuid now db)) = ratings db
   \<or> (\<exists>r. ratings (snd (create_rating rating uuid now db)) = ratings db @ [r]
         \<and> find_one (\<lambda>doc. r_pickup_id doc = r_pickup_id r) (ratings db) = None)"
  by (auto simp add: create_rating_def Rating_init_def insert_one_def
      split: option.splits sum.splits if_splits)

lemma update_pickup_request_ratings:
  "ratings (snd (update_pickup_request request_id update admin now db)) = ratings db"
  by (simp add: update_pickup_request_def Let_def split: option.splits sum.splits)

lemma assign_driver_ratings:
  "ratings (snd (assign_driver request_id driver_id admin now db)) = ratings db"
  by (simp add: assign_driver_def Let_def split: option.splits sum.splits)

lemma create_pickup_request_ratings:
  "ratings (snd (create_pickup_request cfg request uuid now db)) = ratings db"
  by (simp add: create_pickup_request_def Let_def split: sum.splits)

lemma api_ratings:
  "ratings (snd (api cfg c db)) = ratings db
   \<or> (\<exists>r. ratings (snd (api cfg c db)) = ratings db @ [r]
         \<and> find_one (\<lambda>doc. r_pickup_id doc = r_pickup_id r) (ratings db) = None)"
proof (cases "call_request c")
  case (POST_pickup_requests body)
  then show ?thesis
    by (cases "validate_image_size body")
      (simp_all add: api_def snd_respond create_pickup_request_ratings)
next
  case (PUT_pickup_request request_id update)
  then show ?thesis
    by (cases "get_current_admin (call_token c)")
      (simp_all add: api_def snd_respond update_pickup_request_ratings)
next
  case (POST_assign_driver request_id driver_id)
  then show ?thesis
    by (cases "get_current_admin (call_token c)")
      (simp_all add: api_def snd_respond assign_driver_ratings)
next
  case (POST_drivers driver)
  then show ?thesis
    by (cases "get_current_admin (call_token c)")
      (simp_all add: api_def snd_respond create_driver_pickups)
next
  case (PUT_driver_status driver_id status)
  then show ?thesis
    by (cases "get_current_admin (call_token c)")
      (simp_all add: api_def snd_respond update_driver_status_pickups)
next
  case (POST_ratings body)
  show ?thesis
  proof (cases "RatingCreate_validate body")
    case (Inl e)
    then show ?thesis using POST_ratings by (simp add: api_def)
  next
    case (Inr rating)
    then show ?thesis
      using POST_ratings create_rating_ratings [of rating "call_uuid c" "call_now c" db]
      by (simp add: api_def snd_respond)
  qed
qed

lemma api_ratings_distinct:
  assumes "distinct (map r_pickup_id (ratings db))"
  shows "distinct (map r_pickup_id (ratings (snd (api cfg c db))))"
proof -
  from api_ratings [of cfg c db] show ?thesis
  proof (elim disjE exE conjE)
    assume "ratings (snd (api cfg c db)) = ratings db"
    with assms show ?thesis by simp
  next
    fix r
    assume e: "ratings (snd (api cfg c db)) = ratings db @ [r]"
      and n: "find_one (\<lambda>doc. r_pickup_id doc = r_pickup_id r) (ratings db) = None"
    from n have "r_pickup_id r \<notin> r_pickup_id ` set (ratings db)"
      unfolding find_one_None_iff by (auto simp add: image_iff)
    with assms show ?thesis by (simp add: e)
  qed
qed

lemma run_ratings_distinct:
  "distinct (map r_pickup_id (ratings db)) \<Longrightarrow>
     distinct (map r_pickup_id (ratings (run cfg calls db)))"
proof (induction calls arbitrary: db)
  case Nil
  then show ?case by simp
next
  case (Cons c calls)
  from Cons.IH [OF api_ratings_distinct [OF Cons.prems]] show ?case by simp
qed

lemma api_rated:
  assumes "find_one (\<lambda>doc. r_pickup_id doc = pid) (ratings db) \<noteq> None"
  shows "find_one (\<lambda>doc. r_pickup_id doc = pid) (ratings (snd (api cfg c db))) \<noteq> None"
  using api_ratings [of cfg c db] assms
  by (auto simp add: find_one_append split: option.splits)

lemma run_rated:
  "find_one (\<lambda>doc. r_pickup_id doc = pid) (ratings db) \<noteq> None \<Longrightarrow>
     find_one (\<lambda>doc. r_pickup_id doc = pid) (ratings (run cfg calls db)) \<noteq> None"
proof (induction calls arbitrary: db)
  case Nil
  then show ?case by simp
next
  case (Cons c calls)
  from Cons.IH [OF api_rated [OF Cons.prems]] show ?case by simp
qed

lemma find_one_request_step:
  "list_all2 request_step xs ys \<Longrightarrow> find_one (\<lambda>doc. pr_id doc = a) xs = Some p \<Longrightarrow>
     \<exists>p'. find_one (\<lambda>doc. pr_id doc = a) ys = Some p' \<and> request_step p p'"
proof (induction xs ys rule: list_all2_induct)
  case Nil
  then show ?case by simp
next
  case (Cons x xs y ys)
  then show ?case by (auto simp add: request_step_def split: if_splits)
qed

lemma request_step_completed:
  "request_step p p' \<Longrightarrow> pr_status p = COMPLETED \<Longrightarrow> pr_status p' = COMPLETED"
  by (auto simp add: request_step_def history_step_def spec_edge_def split: if_splits)

lemma api_completed:
  assumes "find_one (\<lambda>doc. pr_id doc = a) (pickup_requests db) = Some p"
    and "pr_status p = COMPLETED"
  shows "\<exists>p'. find_one (\<lambda>doc. pr_id doc = a) (pickup_requests (snd (api cfg c db))) = Some p'
     \<and> pr_status p' = COMPLETED"
proof -
  from api_pickup_requests [of cfg c db] obtain olds new where
    e: "pickup_requests (snd (api cfg c db)) = olds @ new"
    and s: "list_all2 request_step (pickup_requests db) olds" by blast
  from find_one_request_step [OF s assms(1)] obtain p' where
    "find_one (\<lambda>doc. pr_id doc = a) olds = Some p'" "request_step p p'" by blast
  then show ?thesis
    using request_step_completed [OF _ assms(2)] by (simp add: e find_one_append)
qed

lemma run_completed:
  "find_one (\<lambda>doc. pr_id doc = a) (pickup_requests db) = Some p \<Longrightarrow> pr_status p = COMPLETED \<Longrightarrow>
     \<exists>p'. find_one (\<lambda>doc. pr_id doc = a) (pickup_requests (run cfg calls db)) = Some p'
       \<and> pr_status p' = COMPLETED"
proof (induction calls arbitrary: db p)
  case Nil
  then show ?case by simp
next
  case (Cons c calls)
  from api_completed [OF Cons.prems, of cfg c] obtain q where
    "find_one (\<lambda>doc. pr_id doc = a) (pickup_requests (snd (api cfg c db))) = Some q"
    "pr_status q = COMPLETED" by blast
  from Cons.IH [OF this] show ?case by simp
qed

lemma api_POST_ratings:
  "api cfg \<lparr>call_token = token, call_uuid = uuid, call_now = now,
            call_request = POST_ratings body\<rparr> db =
     (if 1 \<le> rc_rating body \<and> rc_rating body \<le> 5
      then respond Rating_response (create_rating body uuid now db)
      else (Inl RequestValidationError, db))"
  by (simp add: api_def RatingCreate_validate_def)

lemma example_find_completed:
  "find_one (\<lambda>doc. pr_id doc = ''id-1'') (pickup_requests example_db_completed)
     = Some example_pickup_completed"
  "pr_status example_pickup_completed = COMPLETED"
  "find_one (\<lambda>doc. r_pickup_id doc = ''id-1'') (ratings example_db_completed) = None"
  by (simp_all add: example_db_completed_def example_pickup_completed_def
      example_pickup_assigned_def example_pickup_approved_def example_pickup_def)

lemma example_api_rate:
  "api default_config (example_rating_call (example_rating_body 5)) example_db_completed
     = (Inr (Rating_response example_rating), example_db_rated)"
  using example_rate
  by (simp add: example_rating_call_def example_rating_body_def api_POST_ratings respond_def)

section \<open>The claims\<close>

subsection \<open>C1: the transition table\<close>

text \<open>
  C1. For an update of a stored pickup request whose body asks for a status: when the pair
  of the current and the requested status is not one of the edges Pending to Approved,
  Approved to Assigned, Assigned to Completed, the update raises the invalid-transition
  exception, returns no request and leaves the database as it was; whenever the update
  returns a request, the pair is one of the three edges and the returned and stored status
  is the requested one. (An edge of the table is accepted, unless the body also sets the
  payment status to null.)
\<close>

theorem update_status_transition:
  assumes "find_one (\<lambda>doc. pr_id doc = request_id) (pickup_requests db) = Some existing"
    and "pr_payment_status existing \<noteq> None"
    and "u_status update = Some (Some requested)"
  shows "(\<not> spec_edge (pr_status existing) requested \<longrightarrow>
            update_pickup_request request_id update admin now db
              = (Inl (InvalidTransition (pr_status existing) requested), db))
     \<and> (\<forall>r db'. update_pickup_request request_id update admin now db = (Inr r, db') \<longrightarrow>
            spec_edge (pr_status existing) requested \<and> pr_status r = requested
            \<and> find_one (\<lambda>doc. pr_id doc = request_id) (pickup_requests db') = Some r)
     \<and> (spec_edge (pr_status existing) requested \<and> u_payment_status update \<noteq> Some None \<longrightarrow>
            (\<exists>r db'. update_pickup_request request_id update admin now db = (Inr r, db')))"
proof (cases "spec_edge (pr_status existing) requested")
  case False
  then show ?thesis
    using update_pickup_request_rejected [OF assms(1,2)
        validate_status_transition_bad_edge [OF assms(3) False]]
    by simp
next
  case True
  note w = update_pickup_request_written [OF assms(1,2) validate_status_transition_edge [OF assms(3) True]]
  let ?ud0 = "\<lparr>ud_status = Some requested, ud_actual_cost = u_actual_cost update,
            ud_notes = u_notes update, ud_payment_status = u_payment_status update,
            ud_status_history = Some (pr_status_history existing @
              [\<lparr>sh_status = PickupStatus_value requested, sh_at = now, sh_by = username admin\<rparr>]),
            ud_price_history = None, ud_updated_at = None\<rparr>"
  let ?p = "mongo_set (update_data_of existing ?ud0 admin now) existing"
  have st: "pr_status ?p = requested"
    by (simp add: mongo_set_status update_data_of_fields)
  have f: "find_one (\<lambda>doc. pr_id doc = request_id)
      (update_one (\<lambda>doc. pr_id doc = request_id)
         (mongo_set (update_data_of existing ?ud0 admin now)) (pickup_requests db)) = Some ?p"
    using assms(1) by (simp add: find_one_update_one_same mongo_set_id)
  have ok: "u_payment_status update \<noteq> Some None \<Longrightarrow> PickupRequest_init ?p = Inr ?p"
    using assms(2)
    by (intro PickupRequest_init_valid)
      (auto simp add: mongo_set_payment_status update_data_of_fields split: option.splits)
  show ?thesis
    using True st f ok
    by (auto simp add: w dest!: PickupRequest_init_Inr)
qed

theorem update_status_transition_witness:
  "find_one (\<lambda>doc. pr_id doc = ''id-1'') (pickup_requests example_db_pending) = Some example_pickup
   \<and> pr_payment_status example_pickup \<noteq> None
   \<and> pr_status example_pickup = PENDING
   \<and> \<not> spec_edge PENDING ASSIGNED
   \<and> update_pickup_request ''id-1'' (example_update_status ASSIGNED) example_admin 8 example_db_pending
       = (Inl (InvalidTransition PENDING ASSIGNED), example_db_pending)
   \<and> \<not> spec_edge PENDING PENDING
   \<and> update_pickup_request ''id-1'' (example_update_status PENDING) example_admin 8 example_db_pending
       = (Inl (InvalidTransition PENDING PENDING), example_db_pending)
   \<and> spec_edge PENDING APPROVED
   \<and> (\<exists>r db'. update_pickup_request ''id-1'' (example_update_status APPROVED) example_admin 8
                 example_db_pending = (Inr r, db'))"
proof -
  have p: "pr_payment_status example_pickup \<noteq> None" "pr_status example_pickup = PENDING"
    by (simp_all add: example_pickup_def)
  have u: "u_status (example_update_status s) = Some (Some s)"
    "u_payment_status (example_update_status s) \<noteq> Some None" for s
    by (simp_all add: example_update_status_def)
  show ?thesis
    using update_status_transition [OF example_find_pending p(1) u(1), of ASSIGNED example_admin 8]
      update_status_transition [OF example_find_pending p(1) u(1), of PENDING example_admin 8]
      update_status_transition [OF example_find_pending p(1) u(1), of APPROVED example_admin 8]
    by (simp add: example_find_pending p u spec_edge_def)
qed

subsection \<open>C2: the status history\<close>

text \<open>
  C2. In the database reached from the empty one by any sequence of calls (creating and
  updating pickup requests, assigning drivers, and the other routes as well), every
  stored pickup request has a status history that is not empty and whose last entry
  carries the request's status. One call never removes or reorders stored requests, and
  changes each of them as \<open>history_step\<close> says: status and status history stay as they
  are, or the status moves along an edge of the lifecycle and the status history is the
  old one followed by exactly one entry, which carries the new status.
\<close>

theorem status_history_invariant:
  "(\<forall>p\<in>set (pickup_requests (run cfg calls empty_database)).
      pr_status_history p \<noteq> []
      \<and> sh_status (last (pr_status_history p)) = PickupStatus_value (pr_status p))
   \<and> length (pickup_requests db) \<le> length (pickup_requests (snd (api cfg c db)))
   \<and> (\<forall>i<length (pickup_requests db).
        history_step (pickup_requests db ! i) (pickup_requests (snd (api cfg c db)) ! i))"
proof -
  have "\<forall>p\<in>set (pickup_requests empty_database). history_ok p"
    by (simp add: empty_database_def)
  from run_history_ok [OF this, of cfg calls] show ?thesis
    using api_history_step [of db cfg c]
    by (simp add: history_ok_def request_step_def)
qed

theorem status_history_invariant_witness:
  "run default_config example_calls empty_database = example_db_rated
   \<and> pickup_requests example_db_rated = [example_pickup_completed]
   \<and> pr_status_history example_pickup_completed \<noteq> []
   \<and> sh_status (last (pr_status_history example_pickup_completed)) = ''Completed''
   \<and> pr_status example_pickup_completed = COMPLETED
   \<and> pickup_requests example_db_pending = [example_pickup]
   \<and> pickup_requests (snd (api default_config
        \<lparr>call_token = Some ''admin'', call_uuid = ''u-2'', call_now = 8,
         call_request = PUT_pickup_request ''id-1'' example_update_approve\<rparr> example_db_pending))
       = [example_pickup_approved]
   \<and> history_step example_pickup example_pickup_approved
   \<and> pr_status example_pickup = PENDING \<and> pr_status example_pickup_approved = APPROVED
   \<and> pr_status_history example_pickup_approved
       = pr_status_history example_pickup
           @ [\<lparr>sh_status = ''Approved'', sh_at = 8, sh_by = ''admin''\<rparr>]"
proof -
  note t = status_history_invariant [of default_config example_calls example_db_pending
      "\<lparr>call_token = Some ''admin'', call_uuid = ''u-2'', call_now = 8,
         call_request = PUT_pickup_request ''id-1'' example_update_approve\<rparr>"]
  have r: "pickup_requests example_db_rated = [example_pickup_completed]"
    "pickup_requests example_db_pending = [example_pickup]"
    by (simp_all add: example_db_rated_def example_db_pending_def)
  from t have "pr_status_history example_pickup_completed \<noteq> []
      \<and> sh_status (last (pr_status_history example_pickup_completed))
          = PickupStatus_value (pr_status example_pickup_completed)"
    by (simp add: example_run r)
  moreover from t have "history_step example_pickup example_pickup_approved"
    by (simp add: example_api_approve r)
  moreover have "pr_status example_pickup_completed = COMPLETED"
    "pr_status example_pickup = PENDING" "pr_status example_pickup_approved = APPROVED"
    "pr_status_history example_pickup_approved
       = pr_status_history example_pickup
           @ [\<lparr>sh_status = ''Approved'', sh_at = 8, sh_by = ''admin''\<rparr>]"
    by (simp_all add: example_pickup_completed_def example_pickup_assigned_def
        example_pickup_approved_def example_pickup_def)
  ultimately show ?thesis
    by (simp add: example_run r example_api_approve)
qed

subsection \<open>C3: assigning a driver\<close>

text \<open>
  C3, as amended. \<open>assign_driver\<close> makes its checks in this order, and the first that
  fails decides the exception, with the database left as it was: it fails with NotFound
  if the pickup request id is absent; otherwise with InvalidState if the request's status
  is not Approved; otherwise with NotFound if the driver id is absent; otherwise with
  DriverUnavailable if the driver's status is not Available. Whenever an id is absent,
  the request is not Approved or the driver is not Available, the call fails. When it
  succeeds, the stored and returned request has status Assigned and the given driver id,
  and the stored driver of that id has status Busy. (The stored request is taken to
  validate as a \<^verbatim>\<open>PickupRequest\<close>.)
\<close>

theorem assign_driver_outcome:
  "(find_one (\<lambda>doc. pr_id doc = request_id) (pickup_requests db) = None \<longrightarrow>
      assign_driver request_id driver_id admin now db = (Inl (NotFound ''Pickup request''), db))
   \<and> (\<forall>pickup. find_one (\<lambda>doc. pr_id doc = request_id) (pickup_requests db) = Some pickup
         \<and> pr_payment_status pickup \<noteq> None \<longrightarrow>
        (pr_status pickup \<noteq> APPROVED \<longrightarrow>
           assign_driver request_id driver_id admin now db = (Inl InvalidState_not_approved, db))
      \<and> (pr_status pickup = APPROVED
           \<and> find_one (\<lambda>doc. d_id doc = driver_id) (drivers db) = None \<longrightarrow>
           assign_driver request_id driver_id admin now db = (Inl (NotFound ''Driver''), db))
      \<and> (\<forall>driver. pr_status pickup = APPROVED
           \<and> find_one (\<lambda>doc. d_id doc = driver_id) (drivers db) = Some driver
           \<and> d_status driver \<noteq> AVAILABLE \<longrightarrow>
           assign_driver request_id driver_id admin now db = (Inl DriverUnavailable, db))
      \<and> (\<forall>driver. pr_status pickup = APPROVED
           \<and> find_one (\<lambda>doc. d_id doc = driver_id) (drivers db) = Some driver
           \<and> d_status driver = AVAILABLE \<longrightarrow>
           (\<exists>r db'. assign_driver request_id driver_id admin now db = (Inr r, db'))))
   \<and> (find_one (\<lambda>doc. pr_id doc = request_id) (pickup_requests db) = None
       \<or> find_one (\<lambda>doc. d_id doc = driver_id) (drivers db) = None
       \<or> (\<exists>pickup. find_one (\<lambda>doc. pr_id doc = request_id) (pickup_requests db) = Some pickup
             \<and> pr_status pickup \<noteq> APPROVED)
       \<or> (\<exists>driver. find_one (\<lambda>doc. d_id doc = driver_id) (drivers db) = Some driver
             \<and> d_status driver \<noteq> AVAILABLE) \<longrightarrow>
       (\<exists>e. assign_driver request_id driver_id admin now db = (Inl e, db)))
   \<and> (\<forall>r db'. assign_driver request_id driver_id admin now db = (Inr r, db') \<longrightarrow>
        pr_status r = ASSIGNED \<and> pr_driver_id r = Some driver_id
        \<and> find_one (\<lambda>doc. pr_id doc = request_id) (pickup_requests db') = Some r
        \<and> (\<exists>driver'. find_one (\<lambda>doc. d_id doc = driver_id) (drivers db') = Some driver'
              \<and> d_id driver' = driver_id \<and> d_status driver' = BUSY))"
proof (intro conjI allI impI)
  show "assign_driver request_id driver_id admin now db = (Inl (NotFound ''Pickup request''), db)"
    if "find_one (\<lambda>doc. pr_id doc = request_id) (pickup_requests db) = None"
    using that by (rule assign_driver_absent)
next
  fix pickup
  assume "find_one (\<lambda>doc. pr_id doc = request_id) (pickup_requests db) = Some pickup
    \<and> pr_payment_status pickup \<noteq> None"
  then have p: "find_one (\<lambda>doc. pr_id doc = request_id) (pickup_requests db) = Some pickup"
    and v: "pr_payment_status pickup \<noteq> None" by simp_all
  show "assign_driver request_id driver_id admin now db = (Inl InvalidState_not_approved, db)"
    if "pr_status pickup \<noteq> APPROVED"
    using that by (rule assign_driver_not_approved [OF p v])
  show "assign_driver request_id driver_id admin now db = (Inl (NotFound ''Driver''), db)"
    if "pr_status pickup = APPROVED \<and> find_one (\<lambda>doc. d_id doc = driver_id) (drivers db) = None"
    using that assign_driver_no_driver [OF p v] by simp
  show "assign_driver request_id driver_id admin now db = (Inl DriverUnavailable, db)"
    if "pr_status pickup = APPROVED
           \<and> find_one (\<lambda>doc. d_id doc = driver_id) (drivers db) = Some driver
           \<and> d_status driver \<noteq> AVAILABLE" for driver
    using that assign_driver_unavailable [OF p v] by simp
  show "\<exists>r db'. assign_driver request_id driver_id admin now db = (Inr r, db')"
    if "pr_status pickup = APPROVED
           \<and> find_one (\<lambda>doc. d_id doc = driver_id) (drivers db) = Some driver
           \<and> d_status driver = AVAILABLE" for driver
    using that assign_driver_success [OF p v] by simp
next
  assume c: "find_one (\<lambda>doc. pr_id doc = request_id) (pickup_requests db) = None
       \<or> find_one (\<lambda>doc. d_id doc = driver_id) (drivers db) = None
       \<or> (\<exists>pickup. find_one (\<lambda>doc. pr_id doc = request_id) (pickup_requests db) = Some pickup
             \<and> pr_status pickup \<noteq> APPROVED)
       \<or> (\<exists>driver. find_one (\<lambda>doc. d_id doc = driver_id) (drivers db) = Some driver
             \<and> d_status driver \<noteq> AVAILABLE)"
  obtain out db' where o: "assign_driver request_id driver_id admin now db = (out, db')"
    by (cases "assign_driver request_id driver_id admin now db")
  show "\<exists>e. assign_driver request_id driver_id admin now db = (Inl e, db)"
  proof (cases out)
    case (Inr r)
    with o assign_driver_Inr [of request_id driver_id admin now db r db'] c
    show ?thesis by auto
  next
    case (Inl e)
    have "db' = db"
      using o Inl
      by (auto simp add: assign_driver_def Let_def PickupRequest_of_found_def
          PickupRequest_init_def find_one_update_one_same
          split: option.splits sum.splits if_splits)
    with o Inl show ?thesis by simp
  qed
next
  fix r db'
  assume s: "assign_driver request_id driver_id admin now db = (Inr r, db')"
  from assign_driver_Inr [OF s] obtain pickup driver where
    p: "find_one (\<lambda>doc. pr_id doc = request_id) (pickup_requests db) = Some pickup"
    and v: "pr_payment_status pickup \<noteq> None" and a: "pr_status pickup = APPROVED"
    and d: "find_one (\<lambda>doc. d_id doc = driver_id) (drivers db) = Some driver"
    and av: "d_status driver = AVAILABLE" by blast
  note w = assign_driver_success [OF p v a d av, of admin now]
  from s w have r: "r = assigned_doc driver_id admin now pickup pickup"
    and db': "db' = db\<lparr>pickup_requests :=
           update_one (\<lambda>doc. pr_id doc = request_id) (assigned_doc driver_id admin now pickup)
             (pickup_requests db),
         drivers :=
           update_one (\<lambda>doc. d_id doc = driver_id) (\<lambda>doc. doc\<lparr>d_status := BUSY\<rparr>) (drivers db)\<rparr>"
    by simp_all
  show "pr_status r = ASSIGNED" "pr_driver_id r = Some driver_id"
    by (simp_all add: r assigned_doc_def)
  show "find_one (\<lambda>doc. pr_id doc = request_id) (pickup_requests db') = Some r"
    using p by (simp add: db' r find_one_update_one_same assigned_doc_def)
  have "d_id driver = driver_id" using find_one_Some_holds [OF d] by simp
  then show "\<exists>driver'. find_one (\<lambda>doc. d_id doc = driver_id) (drivers db') = Some driver'
              \<and> d_id driver' = driver_id \<and> d_status driver' = BUSY"
    using d by (simp add: db' find_one_update_one_same)
qed

theorem assign_driver_outcome_witness:
  "find_one (\<lambda>doc. pr_id doc = ''id-1'') (pickup_requests example_db_approved)
     = Some example_pickup_approved
   \<and> pr_payment_status example_pickup_approved \<noteq> None
   \<and> pr_status example_pickup_approved = APPROVED
   \<and> find_one (\<lambda>doc. d_id doc = ''drv-1'') (drivers example_db_approved) = Some example_driver
   \<and> d_status example_driver = AVAILABLE
   \<and> assign_driver ''id-1'' ''drv-1'' example_admin 10 example_db_approved
       = (Inr example_pickup_assigned, example_db_assigned)
   \<and> pr_status example_pickup_assigned = ASSIGNED
   \<and> pr_driver_id example_pickup_assigned = Some ''drv-1''
   \<and> find_one (\<lambda>doc. pr_id doc = ''id-1'') (pickup_requests example_db_assigned)
       = Some example_pickup_assigned
   \<and> (\<exists>driver'. find_one (\<lambda>doc. d_id doc = ''drv-1'') (drivers example_db_assigned) = Some driver'
         \<and> d_id driver' = ''drv-1'' \<and> d_status driver' = BUSY)
   \<and> assign_driver ''id-9'' ''drv-1'' example_admin 10 example_db_approved
       = (Inl (NotFound ''Pickup request''), example_db_approved)
   \<and> assign_driver ''id-1'' ''drv-9'' example_admin 10 example_db_approved
       = (Inl (NotFound ''Driver''), example_db_approved)
   \<and> assign_driver ''id-1'' ''drv-1'' example_admin 11 example_db_assigned
       = (Inl InvalidState_not_approved, example_db_assigned)
   \<and> assign_driver ''id-1'' ''drv-1'' example_admin 11 example_db_driver_busy
       = (Inl DriverUnavailable, example_db_driver_busy)"
proof -
  have p: "pr_payment_status example_pickup_approved \<noteq> None"
    "pr_status example_pickup_approved = APPROVED"
    by (simp_all add: example_pickup_approved_def example_pickup_def)
  have d: "find_one (\<lambda>doc. d_id doc = ''drv-1'') (drivers example_db_approved) = Some example_driver"
    "d_status example_driver = AVAILABLE"
    "find_one (\<lambda>doc. d_id doc = ''drv-9'') (drivers example_db_approved) = None"
    by (simp_all add: example_db_approved_def example_driver_def)
  have n: "find_one (\<lambda>doc. pr_id doc = ''id-9'') (pickup_requests example_db_approved) = None"
    by (simp add: example_db_approved_def example_pickup_approved_def example_pickup_def)
  have a: "find_one (\<lambda>doc. pr_id doc = ''id-1'') (pickup_requests example_db_assigned)
       = Some example_pickup_assigned" "pr_payment_status example_pickup_assigned \<noteq> None"
    "pr_status example_pickup_assigned \<noteq> APPROVED"
    by (simp_all add: example_db_assigned_def example_pickup_assigned_def
        example_pickup_approved_def example_pickup_def)
  have b: "find_one (\<lambda>doc. pr_id doc = ''id-1'') (pickup_requests example_db_driver_busy)
       = Some example_pickup_approved"
    "find_one (\<lambda>doc. d_id doc = ''drv-1'') (drivers example_db_driver_busy)
       = Some (example_driver\<lparr>d_status := BUSY\<rparr>)"
    "d_status (example_driver\<lparr>d_status := BUSY\<rparr>) \<noteq> AVAILABLE"
    by (simp_all add: example_db_driver_busy_def example_pickup_approved_def example_pickup_def
        example_driver_def)
  note t1 = assign_driver_outcome [of "''id-1''" example_db_approved "''drv-1''" example_admin 10]
  note t2 = assign_driver_outcome [of "''id-9''" example_db_approved "''drv-1''" example_admin 10]
  note t3 = assign_driver_outcome [of "''id-1''" example_db_approved "''drv-9''" example_admin 10]
  note t4 = assign_driver_outcome [of "''id-1''" example_db_assigned "''drv-1''" example_admin 11]
  note t5 = assign_driver_outcome [of "''id-1''" example_db_driver_busy "''drv-1''" example_admin 11]
  from t1 have "pr_status example_pickup_assigned = ASSIGNED
      \<and> pr_driver_id example_pickup_assigned = Some ''drv-1''
      \<and> find_one (\<lambda>doc. pr_id doc = ''id-1'') (pickup_requests example_db_assigned)
           = Some example_pickup_assigned
      \<and> (\<exists>driver'. find_one (\<lambda>doc. d_id doc = ''drv-1'') (drivers example_db_assigned) = Some driver'
            \<and> d_id driver' = ''drv-1'' \<and> d_status driver' = BUSY)"
    using example_assign by blast
  moreover from t2 n have "assign_driver ''id-9'' ''drv-1'' example_admin 10 example_db_approved
       = (Inl (NotFound ''Pickup request''), example_db_approved)" by blast
  moreover from t3 example_find_approved p d(3)
  have "assign_driver ''id-1'' ''drv-9'' example_admin 10 example_db_approved
       = (Inl (NotFound ''Driver''), example_db_approved)" by blast
  moreover from t4 a have "assign_driver ''id-1'' ''drv-1'' example_admin 11 example_db_assigned
       = (Inl InvalidState_not_approved, example_db_assigned)" by blast
  moreover from t5 b p have "assign_driver ''id-1'' ''drv-1'' example_admin 11 example_db_driver_busy
       = (Inl DriverUnavailable, example_db_driver_busy)" by blast
  ultimately show ?thesis
    using example_find_approved p d(1,2) example_assign by simp
qed

text \<open>
  The claim as it was stated asks for NotFound whenever the driver id is absent. For the
  Pending request of the example and a driver id that no driver has, the status check
  comes first and the call fails with InvalidState.
\<close>

theorem assign_driver_absent_driver_counterexample:
  "find_one (\<lambda>doc. pr_id doc = ''id-1'') (pickup_requests example_db_pending) = Some example_pickup
   \<and> pr_status example_pickup = PENDING
   \<and> find_one (\<lambda>doc. d_id doc = ''drv-9'') (drivers example_db_pending) = None
   \<and> assign_driver ''id-1'' ''drv-9'' example_admin 8 example_db_pending
       = (Inl InvalidState_not_approved, example_db_pending)
   \<and> InvalidState_not_approved \<noteq> NotFound ''Driver''
   \<and> InvalidState_not_approved \<noteq> NotFound ''Pickup request''"
proof -
  have p: "pr_payment_status example_pickup \<noteq> None" "pr_status example_pickup \<noteq> APPROVED"
    "pr_status example_pickup = PENDING"
    by (simp_all add: example_pickup_def)
  have d: "find_one (\<lambda>doc. d_id doc = ''drv-9'') (drivers example_db_pending) = None"
    by (simp add: example_db_pending_def)
  have n: "InvalidState_not_approved \<noteq> NotFound ''Driver''"
    "InvalidState_not_approved \<noteq> NotFound ''Pickup request''"
    by (simp_all add: InvalidState_not_approved_def NotFound_def)
  show ?thesis
    using assign_driver_not_approved [OF example_find_pending p(1,2), of "''drv-9''" example_admin 8]
    by (simp add: example_find_pending p d n)
qed


subsection \<open>C6: one rating per pickup request\<close>

text \<open>
  C6. The route for creating a rating makes its checks in this order, and the first that
  fails decides the exception, with the database left as it was: the score is outside
  1..5 (the body is rejected, 422); the pickup id is unknown (404); the pickup's status is
  not Completed (400, only completed pickups); a rating for the pickup id exists (400,
  already rated). The first call with a score in 1..5 for a Completed pickup without a
  rating succeeds and appends the rating. After it, whatever calls are served in between,
  every call with a score in 1..5 for the same pickup id fails as already rated. In the
  database reached from the empty one by any sequence of calls, no two ratings have the
  same pickup id.
\<close>

theorem rating_once:
  "(\<not> (1 \<le> rc_rating body \<and> rc_rating body \<le> 5) \<longrightarrow>
      api cfg \<lparr>call_token = token, call_uuid = uuid, call_now = now,
               call_request = POST_ratings body\<rparr> db
        = (Inl RequestValidationError, db))
   \<and> (1 \<le> rc_rating body \<and> rc_rating body \<le> 5 \<longrightarrow>
        (find_one (\<lambda>doc. pr_id doc = rc_pickup_id body) (pickup_requests db) = None \<longrightarrow>
           api cfg \<lparr>call_token = token, call_uuid = uuid, call_now = now,
                    call_request = POST_ratings body\<rparr> db
             = (Inl (NotFound ''Pickup request''), db))
      \<and> (\<forall>pickup.
            find_one (\<lambda>doc. pr_id doc = rc_pickup_id body) (pickup_requests db) = Some pickup
            \<longrightarrow>
            (pr_status pickup \<noteq> COMPLETED \<longrightarrow>
               api cfg \<lparr>call_token = token, call_uuid = uuid, call_now = now,
                        call_request = POST_ratings body\<rparr> db
                 = (Inl InvalidState_not_completed, db))
          \<and> (pr_status pickup = COMPLETED
               \<and> find_one (\<lambda>doc. r_pickup_id doc = rc_pickup_id body) (ratings db) \<noteq> None
               \<longrightarrow>
               api cfg \<lparr>call_token = token, call_uuid = uuid, call_now = now,
                        call_request = POST_ratings body\<rparr> db
                 = (Inl Conflict, db))
          \<and> (pr_status pickup = COMPLETED
               \<and> find_one (\<lambda>doc. r_pickup_id doc = rc_pickup_id body) (ratings db) = None
               \<longrightarrow>
               (\<exists>r. api cfg \<lparr>call_token = token, call_uuid = uuid, call_now = now,
                             call_request = POST_ratings body\<rparr> db
                      = (Inr (Rating_response r), db\<lparr>ratings := ratings db @ [r]\<rparr>)
                    \<and> r_pickup_id r = rc_pickup_id body \<and> r_rating r = rc_rating body)
             \<and> (\<forall>calls token' uuid' now' body'.
                   rc_pickup_id body' = rc_pickup_id body
                   \<and> 1 \<le> rc_rating body' \<and> rc_rating body' \<le> 5 \<longrightarrow>
                   api cfg \<lparr>call_token = token', call_uuid = uuid', call_now = now',
                            call_request = POST_ratings body'\<rparr>
                     (run cfg calls (snd (api cfg
                        \<lparr>call_token = token, call_uuid = uuid, call_now = now,
                         call_request = POST_ratings body\<rparr> db)))
                   = (Inl Conflict,
                      run cfg calls (snd (api cfg
                        \<lparr>call_token = token, call_uuid = uuid, call_now = now,
                         call_request = POST_ratings body\<rparr> db)))))))
   \<and> distinct (map r_pickup_id (ratings (run cfg calls0 empty_database)))"
proof (intro conjI allI impI)
  let ?c = "\<lparr>call_token = token, call_uuid = uuid, call_now = now,
             call_request = POST_ratings body\<rparr>"
  show "api cfg ?c db = (Inl RequestValidationError, db)"
    if "\<not> (1 \<le> rc_rating body \<and> rc_rating body \<le> 5)"
    using that by (auto simp add: api_POST_ratings)
  show "distinct (map r_pickup_id (ratings (run cfg calls0 empty_database)))"
    by (rule run_ratings_distinct) (simp add: empty_database_def)
  assume v: "1 \<le> rc_rating body \<and> rc_rating body \<le> 5"
  show "api cfg ?c db = (Inl (NotFound ''Pickup request''), db)"
    if "find_one (\<lambda>doc. pr_id doc = rc_pickup_id body) (pickup_requests db) = None"
    using v by (simp add: api_POST_ratings create_rating_absent [OF that] respond_def)
  fix pickup :: PickupRequest
  assume p: "find_one (\<lambda>doc. pr_id doc = rc_pickup_id body) (pickup_requests db) = Some pickup"
  show "api cfg ?c db = (Inl InvalidState_not_completed, db)" if "pr_status pickup \<noteq> COMPLETED"
    using v by (simp add: api_POST_ratings create_rating_not_completed [OF p that] respond_def)
  show "api cfg ?c db = (Inl Conflict, db)"
    if "pr_status pickup = COMPLETED
      \<and> find_one (\<lambda>doc. r_pickup_id doc = rc_pickup_id body) (ratings db) \<noteq> None"
  proof -
    from that obtain existing where
      "find_one (\<lambda>doc. r_pickup_id doc = rc_pickup_id body) (ratings db) = Some existing"
      and "pr_status pickup = COMPLETED" by auto
    from create_rating_conflict [OF p this(2,1)] v show ?thesis
      by (simp add: api_POST_ratings respond_def)
  qed
  assume f: "pr_status pickup = COMPLETED
      \<and> find_one (\<lambda>doc. r_pickup_id doc = rc_pickup_id body) (ratings db) = None"
  from f have c: "pr_status pickup = COMPLETED"
    and n: "find_one (\<lambda>doc. r_pickup_id doc = rc_pickup_id body) (ratings db) = None"
    by simp_all
  let ?r = "\<lparr>r_id = uuid, r_pickup_id = rc_pickup_id body, r_rating = rc_rating body,
             r_feedback = rc_feedback body, r_created_at = now\<rparr>"
  have a: "api cfg ?c db = (Inr (Rating_response ?r), db\<lparr>ratings := ratings db @ [?r]\<rparr>)"
    using v create_rating_success [OF p c n, of uuid now]
    by (simp add: api_POST_ratings respond_def)
  show "\<exists>r. api cfg ?c db = (Inr (Rating_response r), db\<lparr>ratings := ratings db @ [r]\<rparr>)
      \<and> r_pickup_id r = rc_pickup_id body \<and> r_rating r = rc_rating body"
    unfolding a by simp
  fix calls token' uuid' now' and body' :: RatingCreate
  assume s: "rc_pickup_id body' = rc_pickup_id body
      \<and> 1 \<le> rc_rating body' \<and> rc_rating body' \<le> 5"
  let ?db1 = "snd (api cfg ?c db)"
  have p1: "find_one (\<lambda>doc. pr_id doc = rc_pickup_id body) (pickup_requests ?db1) = Some pickup"
    using p by (simp add: a)
  have r1: "find_one (\<lambda>doc. r_pickup_id doc = rc_pickup_id body) (ratings ?db1) \<noteq> None"
    by (simp add: a find_one_append n)
  from run_completed [OF p1 c, of cfg calls] obtain p' where
    p2: "find_one (\<lambda>doc. pr_id doc = rc_pickup_id body) (pickup_requests (run cfg calls ?db1))
        = Some p'" and c2: "pr_status p' = COMPLETED" by blast
  from run_rated [OF r1, of cfg calls] obtain existing where
    r2: "find_one (\<lambda>doc. r_pickup_id doc = rc_pickup_id body) (ratings (run cfg calls ?db1))
        = Some existing" by auto
  from s have e: "rc_pickup_id body' = rc_pickup_id body" by simp
  have "create_rating body' uuid' now' (run cfg calls ?db1) = (Inl Conflict, run cfg calls ?db1)"
    by (rule create_rating_conflict [where pickup = p' and existing = existing])
      (simp_all add: e p2 c2 r2)
  then show "api cfg \<lparr>call_token = token', call_uuid = uuid', call_now = now',
                            call_request = POST_ratings body'\<rparr> (run cfg calls ?db1)
      = (Inl Conflict, run cfg calls ?db1)"
    using s by (simp add: api_POST_ratings respond_def)
qed

theorem rating_once_witness:
  "find_one (\<lambda>doc. pr_id doc = ''id-1'') (pickup_requests example_db_completed)
     = Some example_pickup_completed
   \<and> pr_status example_pickup_completed = COMPLETED
   \<and> find_one (\<lambda>doc. r_pickup_id doc = ''id-1'') (ratings example_db_completed) = None
   \<and> api default_config (example_rating_call (example_rating_body 5)) example_db_completed
       = (Inr (Rating_response example_rating), example_db_rated)
   \<and> api default_config (example_rating_call (example_rating_body 4)) example_db_rated
       = (Inl Conflict, example_db_rated)
   \<and> api default_config (example_rating_call (example_rating_body 4))
         (run default_config example_calls example_db_rated)
       = (Inl Conflict, run default_config example_calls example_db_rated)
   \<and> api default_config (example_rating_call (example_rating_body 6)) example_db_completed
       = (Inl RequestValidationError, example_db_completed)
   \<and> map r_pickup_id (ratings (run default_config example_calls empty_database)) = [''id-1'']
   \<and> distinct (map r_pickup_id (ratings (run default_config example_calls empty_database)))"
proof -
  note t = rating_once [where body = "example_rating_body 5" and cfg = default_config
      and token = None and uuid = "''rat-1''" and now = 12 and db = example_db_completed
      and ?calls0.0 = example_calls, folded example_rating_call_def]
  note u = rating_once [where body = "example_rating_body 6" and cfg = default_config
      and token = None and uuid = "''rat-1''" and now = 12 and db = example_db_completed
      and ?calls0.0 = example_calls, folded example_rating_call_def]
  have b: "rc_pickup_id (example_rating_body s) = ''id-1''" "rc_rating (example_rating_body s) = s"
    for s by (simp_all add: example_rating_body_def)
  from t have later: "\<forall>calls token' uuid' now' body'.
      rc_pickup_id body' = ''id-1'' \<and> 1 \<le> rc_rating body' \<and> rc_rating body' \<le> 5 \<longrightarrow>
        api default_config \<lparr>call_token = token', call_uuid = uuid', call_now = now',
                            call_request = POST_ratings body'\<rparr>
          (run default_config calls example_db_rated)
        = (Inl Conflict, run default_config calls example_db_rated)"
    by (simp add: b example_find_completed example_api_rate)
  from later [rule_format, of "example_rating_body 4" None "''rat-1''" 12 "[]"]
  have c1: "api default_config (example_rating_call (example_rating_body 4)) example_db_rated
       = (Inl Conflict, example_db_rated)"
    by (simp add: b example_rating_call_def)
  from later [rule_format, of "example_rating_body 4" None "''rat-1''" 12 example_calls]
  have c2: "api default_config (example_rating_call (example_rating_body 4))
         (run default_config example_calls example_db_rated)
       = (Inl Conflict, run default_config example_calls example_db_rated)"
    by (simp add: b example_rating_call_def)
  from u have c3: "api default_config (example_rating_call (example_rating_body 6))
        example_db_completed = (Inl RequestValidationError, example_db_completed)"
    by (simp add: b)
  from t have c4: "distinct (map r_pickup_id (ratings (run default_config example_calls empty_database)))"
    by blast
  have c5: "map r_pickup_id (ratings (run default_config example_calls empty_database)) = [''id-1'']"
    by (simp add: example_run example_db_rated_def example_rating_def)
  show ?thesis
    using c1 c2 c3 c4 c5 example_find_completed example_api_rate by simp
qed

subsection \<open>C8: no write on an error path of update\<close>

text \<open>
  C8. The claim is that no path of an update that ends in an exception changes a stored
  field. It holds for the exceptions raised before \<^verbatim>\<open>update_one\<close> (the request is not
  found, the transition is not allowed, the status is null), see
  \<open>update_pickup_request_error_paths\<close>. It fails for a body that sets \<open>payment_status\<close>
  to null: on the stored Pending request of the example, the call ends in a
  \<^verbatim>\<open>ValidationError\<close> and has written null into \<open>payment_status\<close> and a new
  \<open>updated_at\<close>.
\<close>

theorem update_null_payment_status_writes:
  "update_pickup_request ''id-1'' example_update_null_payment example_admin 9 example_db_pending
     = (Inl (Unhandled ''ValidationError''),
        \<lparr>pickup_requests = [example_pickup\<lparr>pr_payment_status := None, pr_updated_at := 9\<rparr>],
         drivers = [], ratings = []\<rparr>)
   \<and> snd (update_pickup_request ''id-1'' example_update_null_payment example_admin 9
          example_db_pending) \<noteq> example_db_pending
   \<and> api default_config
        \<lparr>call_token = Some ''admin'', call_uuid = ''u-2'', call_now = 9,
         call_request = PUT_pickup_request ''id-1'' example_update_null_payment\<rparr>
        (run default_config (take 1 example_calls) empty_database)
      = (Inl (Unhandled ''ValidationError''),
         \<lparr>pickup_requests = [example_pickup\<lparr>pr_payment_status := None, pr_updated_at := 9\<rparr>],
          drivers = [], ratings = []\<rparr>)"
proof -
  have e: "update_pickup_request ''id-1'' example_update_null_payment example_admin 9
      example_db_pending
     = (Inl (Unhandled ''ValidationError''),
        \<lparr>pickup_requests = [example_pickup\<lparr>pr_payment_status := None, pr_updated_at := 9\<rparr>],
         drivers = [], ratings = []\<rparr>)"
    by (simp add: update_pickup_request_def example_db_pending_def example_pickup_def
      example_update_null_payment_def example_admin_def PickupRequest_init_def
      validate_status_transition_def track_price_changes_def mongo_set_def
      PickupRequest_of_found_def Let_def)
  have n: "\<lparr>pickup_requests = [example_pickup\<lparr>pr_payment_status := None, pr_updated_at := 9\<rparr>],
         drivers = [], ratings = []\<rparr> \<noteq> example_db_pending"
    by (simp add: example_db_pending_def example_pickup_def)
  have v: "validate_image_size example_create_hub = Inr example_create_hub"
    by (simp add: validate_image_size_def example_create_hub_def)
  have r: "run default_config (take 1 example_calls) empty_database = example_db_pending"
    by (simp add: example_calls_def api_def v respond_def example_create)
  have adm: "get_current_admin (Some ''admin'') = Inr example_admin"
    by (simp add: get_current_admin_def example_admin_def)
  show ?thesis
    unfolding r by (simp add: e n api_def adm respond_def)
qed

subsection \<open>C10: clearing the actual cost\<close>

text \<open>
  C10. Take an update of a stored pickup request that gets past the status check (the body
  sets no status, or one along an edge). When the body gives \<open>actual_cost\<close> as null, the
  stored \<open>actual_cost\<close> becomes null and the price history stays as it was: nothing
  records the change. The price history gains an entry, one, exactly when the body gives
  a cost that is not null; a body that does not mention the cost leaves both alone.
\<close>

theorem update_actual_cost_null:
  assumes "find_one (\<lambda>doc. pr_id doc = request_id) (pickup_requests db) = Some existing"
    and "pr_payment_status existing \<noteq> None"
    and "u_status update = None
         \<or> (\<exists>requested. u_status update = Some (Some requested)
               \<and> spec_edge (pr_status existing) requested)"
  shows "\<exists>stored.
       find_one (\<lambda>doc. pr_id doc = request_id)
         (pickup_requests (snd (update_pickup_request request_id update admin now db)))
         = Some stored
     \<and> (u_actual_cost update = Some None \<longrightarrow>
          pr_actual_cost stored = None \<and> pr_price_history stored = pr_price_history existing)
     \<and> (\<forall>v. u_actual_cost update = Some (Some v) \<longrightarrow>
          pr_actual_cost stored = Some v
          \<and> pr_price_history stored = pr_price_history existing
               @ [\<lparr>ph_actual_cost = v, ph_at = now, ph_by = username admin\<rparr>])
     \<and> (u_actual_cost update = None \<longrightarrow>
          pr_actual_cost stored = pr_actual_cost existing
          \<and> pr_price_history stored = pr_price_history existing)"
proof -
  from assms(3) obtain ud0 where
    v: "validate_status_transition existing update admin now = Inr ud0"
    and c: "ud_actual_cost ud0 = u_actual_cost update" "ud_price_history ud0 = None"
    by (auto simp add: validate_status_transition_unset validate_status_transition_edge)
  let ?ud = "update_data_of existing ud0 admin now"
  have f: "find_one (\<lambda>doc. pr_id doc = request_id)
      (pickup_requests (snd (update_pickup_request request_id update admin now db)))
        = Some (mongo_set ?ud existing)"
    using assms(1)
    by (simp add: update_pickup_request_written [OF assms(1,2) v] find_one_update_one_same
        mongo_set_id)
  show ?thesis
    unfolding f
    by (auto simp add: mongo_set_actual_cost mongo_set_price_history update_data_of_fields
        update_data_of_price_history c)
qed

theorem update_actual_cost_null_witness:
  "find_one (\<lambda>doc. pr_id doc = ''id-1'') (pickup_requests example_db_approved)
     = Some example_pickup_approved
   \<and> pr_payment_status example_pickup_approved \<noteq> None
   \<and> u_status example_update_clear_cost = None
   \<and> u_actual_cost example_update_clear_cost = Some None
   \<and> pr_actual_cost example_pickup_approved = Some 120
   \<and> (\<exists>stored.
         find_one (\<lambda>doc. pr_id doc = ''id-1'')
           (pickup_requests (snd (update_pickup_request ''id-1'' example_update_clear_cost
              example_admin 9 example_db_approved))) = Some stored
       \<and> pr_actual_cost stored = None
       \<and> pr_price_history stored = [\<lparr>ph_actual_cost = 120, ph_at = 8, ph_by = ''admin''\<rparr>])"
proof -
  have p: "pr_payment_status example_pickup_approved \<noteq> None"
    "pr_actual_cost example_pickup_approved = Some 120"
    "pr_price_history example_pickup_approved
       = [\<lparr>ph_actual_cost = 120, ph_at = 8, ph_by = ''admin''\<rparr>]"
    by (simp_all add: example_pickup_approved_def example_pickup_def)
  have u: "u_status example_update_clear_cost = None"
    "u_actual_cost example_update_clear_cost = Some None"
    by (simp_all add: example_update_clear_cost_def)
  have s: "u_status example_update_clear_cost = None
         \<or> (\<exists>requested. u_status example_update_clear_cost = Some (Some requested)
               \<and> spec_edge (pr_status example_pickup_approved) requested)"
    by (simp add: u)
  show ?thesis
    using update_actual_cost_null [OF example_find_approved p(1) s, of example_admin 9]
    by (simp add: example_find_approved p u)
qed

end
